theory Spec2Isabelle
  imports Main
begin

section \<open>Constants of the plugin\<close>

text \<open>
  The model follows the compiled plugin (the last version of \<^verbatim>\<open>index.ts\<close>): intervals are
  counted in heartbeats, one heartbeat per minute.
\<close>

definition DEFAULT_MY_AIS_CLASS :: string where
  "DEFAULT_MY_AIS_CLASS = ''B''"

definition DEFAULT_POSITION_UPDATE_INTERVAL :: nat where
  "DEFAULT_POSITION_UPDATE_INTERVAL = 5"

definition DEFAULT_STATIC_DATA_UPDATE_INTERVAL :: nat where
  "DEFAULT_STATIC_DATA_UPDATE_INTERVAL = 15"

definition DEFAULT_EXPIRY_INTERVAL :: nat where
  "DEFAULT_EXPIRY_INTERVAL = 15"

section \<open>Data model\<close>

subsection \<open>Raw options\<close>

text \<open>
  An update interval in the raw options is a number or an array of numbers (schema:
  integers, minimum 0). The four leaf properties may sit in the global options, in an
  endpoint entry and in the \<^verbatim>\<open>myVessel\<close> / \<^verbatim>\<open>otherVessels\<close> objects of either; an absent
  property is \<open>None\<close>. Raw option fields carry the prefix \<open>opt_\<close> to keep them apart from
  the fields of the canonical configuration, which have the same names in the source.
\<close>

datatype interval_option = Scalar nat | Sequence "nat list"

record vessel_options =
  opt_expiryInterval :: "nat option"
  opt_positionUpdateInterval :: "interval_option option"
  opt_staticUpdateInterval :: "interval_option option"
  opt_updateIntervalIndexPath :: "string option"

record class_options = vessel_options +
  opt_myVessel :: "vessel_options option"
  opt_otherVessels :: "vessel_options option"

record endpoint_options = class_options +
  opt_name :: "string option"
  opt_ipAddress :: "string option"
  opt_port :: "nat option"

record plugin_options = class_options +
  opt_endpoints :: "endpoint_options list"

subsection \<open>Canonical configuration and statistics\<close>

record vessel_config =
  expiryInterval :: nat
  positionUpdateIntervals :: "nat list"
  staticUpdateIntervals :: "nat list"
  updateIntervalIndexPath :: "string option"

record report_type_statistics =
  lastReportTimestamp :: "nat option"
  totalBytesTransmitted :: nat
  bytesTransmittedInLastHour :: "nat list"
  bytesTransmittedInLastDay :: "nat list"
  totalReportsTransmitted :: nat
  reportsTransmittedInLastHour :: "nat list"
  reportsTransmittedInLastDay :: "nat list"

text \<open>
  \<open>endpointTotalBytesTransmitted\<close> is the field \<^verbatim>\<open>endpoint.statistics.totalBytesTransmitted\<close>;
  the per-report-type records have a field of the same name.
\<close>

record endpoint_statistics =
  started :: nat
  endpointTotalBytesTransmitted :: nat
  position :: report_type_statistics
  static :: report_type_statistics

record endpoint =
  name :: string
  ipAddress :: string
  port :: nat
  myVessel :: vessel_config
  otherVessels :: vessel_config
  statistics :: endpoint_statistics

record plugin_configuration =
  myMMSI :: "string option"
  myAisClass :: string
  endpoints :: "endpoint list"

text \<open>
  \<^verbatim>\<open>{ myVessel: { count, bytes }, otherVessels: { count, bytes } }\<close>, flattened.
\<close>

record report_statistics =
  myVessel_count :: nat
  myVessel_bytes :: nat
  otherVessels_count :: nat
  otherVessels_bytes :: nat

subsection \<open>Vessels, encoder and socket\<close>

text \<open>
  A vessel of the Signal K store. Only three of its properties decide control flow:
  \<^verbatim>\<open>mmsi\<close>, \<^verbatim>\<open>navigation.position.timestamp\<close> (as epoch milliseconds; \<open>None\<close> when the
  property is missing or falsy) and \<^verbatim>\<open>sensors.ais.class.value\<close>. Everything else lives in
  the record's extension and is only read when the AIS properties are built.

  The encoder is a parameter \<open>AisEncode vessel aistype part\<close>: it stands for building
  \<^verbatim>\<open>aisProperties\<close> from the vessel and calling \<^verbatim>\<open>new AisEncode(aisProperties)\<close>. It is
  \<open>Some nmea\<close> when the message is valid, and \<open>None\<close> when it is not or when building the
  properties throws; both cases end in the \<^verbatim>\<open>catch\<close> block of the vessel.

  The socket is the list of datagrams sent so far, each with its port and address.
\<close>

record vessel =
  mmsi :: "string option"
  position_timestamp :: "nat option"
  ais_class :: "string option"

type_synonym 'a encoder = "'a vessel_scheme \<Rightarrow> nat \<Rightarrow> nat option \<Rightarrow> string option"

type_synonym socket = "(string \<times> nat \<times> string) list"

section \<open>Normalisation of the options\<close>

datatype error = MissingIpAddress | MissingPort | TypeError

text \<open>
  \<^verbatim>\<open>getOption(objects, name, fallback)\<close>. The property name \<open>pname\<close> is the selector of the leaf. A
  hole of the array literal is \<open>None\<close>: reading a property of \<^verbatim>\<open>undefined\<close> throws a
  TypeError.
\<close>

fun getOption :: "vessel_options option list \<Rightarrow> (vessel_options \<Rightarrow> 'a option) \<Rightarrow> 'a \<Rightarrow> error + 'a" where
  "getOption [] pname fallback = Inr fallback"
| "getOption (None # objects) pname fallback = Inl TypeError"
| "getOption (Some obj # objects) pname fallback =
     (case pname obj of
        Some v \<Rightarrow> Inr v
      | None \<Rightarrow> getOption objects pname fallback)"

fun getOptionArray :: "vessel_options option list \<Rightarrow> (vessel_options \<Rightarrow> interval_option option) \<Rightarrow> nat list \<Rightarrow> error + nat list" where
  "getOptionArray [] pname fallback = Inr fallback"
| "getOptionArray (None # objects) pname fallback = Inl TypeError"
| "getOptionArray (Some obj # objects) pname fallback =
     (case pname obj of
        Some (Sequence vs) \<Rightarrow> Inr vs
      | Some (Scalar v) \<Rightarrow> Inr [v]
      | None \<Rightarrow> getOptionArray objects pname fallback)"

text \<open>The leaf properties of an options object, and \<^verbatim>\<open>(o || {})\<close>.\<close>

definition leaves :: "'a vessel_options_scheme \<Rightarrow> vessel_options" where
  "leaves obj = \<lparr> opt_expiryInterval = opt_expiryInterval obj,
       opt_positionUpdateInterval = opt_positionUpdateInterval obj,
       opt_staticUpdateInterval = opt_staticUpdateInterval obj,
       opt_updateIntervalIndexPath = opt_updateIntervalIndexPath obj \<rparr>"

definition empty_object :: vessel_options where
  "empty_object = \<lparr> opt_expiryInterval = None, opt_positionUpdateInterval = None,
       opt_staticUpdateInterval = None, opt_updateIntervalIndexPath = None \<rparr>"

definition or_empty :: "vessel_options option \<Rightarrow> vessel_options" where
  "or_empty obj = (case obj of None \<Rightarrow> empty_object | Some v \<Rightarrow> v)"

definition then_do :: "error + 'a \<Rightarrow> ('a \<Rightarrow> error + 'b) \<Rightarrow> error + 'b" where
  "then_do r f = (case r of Inl e \<Rightarrow> Inl e | Inr v \<Rightarrow> f v)"

definition initial_report_type_statistics :: report_type_statistics where
  "initial_report_type_statistics =
     \<lparr> lastReportTimestamp = None, totalBytesTransmitted = 0,
       bytesTransmittedInLastHour = replicate 60 0, bytesTransmittedInLastDay = replicate 24 0,
       totalReportsTransmitted = 0,
       reportsTransmittedInLastHour = replicate 60 0, reportsTransmittedInLastDay = replicate 24 0 \<rparr>"

definition initial_statistics :: "nat \<Rightarrow> endpoint_statistics" where
  "initial_statistics now =
     \<lparr> started = now, endpointTotalBytesTransmitted = 0,
       position = initial_report_type_statistics, static = initial_report_type_statistics \<rparr>"

text \<open>
  The four object lists of \<^verbatim>\<open>makePluginConfiguration\<close>. The list for the static intervals
  of \<^verbatim>\<open>myVessel\<close> is written \<^verbatim>\<open>[..., (options.myVessel || {}), , options]\<close> in the source:
  it has a hole before the global options.
\<close>

definition myVessel_objects :: "plugin_options \<Rightarrow> endpoint_options \<Rightarrow> vessel_options option list" where
  "myVessel_objects options option =
     [Some (or_empty (opt_myVessel option)), Some (leaves option),
      Some (or_empty (opt_myVessel options)), Some (leaves options)]"

definition myVessel_static_objects :: "plugin_options \<Rightarrow> endpoint_options \<Rightarrow> vessel_options option list" where
  "myVessel_static_objects options option =
     [Some (or_empty (opt_myVessel option)), Some (leaves option),
      Some (or_empty (opt_myVessel options)), None, Some (leaves options)]"

definition otherVessels_objects :: "plugin_options \<Rightarrow> endpoint_options \<Rightarrow> vessel_options option list" where
  "otherVessels_objects options option =
     [Some (or_empty (opt_otherVessels option)), Some (leaves option),
      Some (or_empty (opt_otherVessels options)), Some (leaves options)]"

definition falsy_string :: "string option \<Rightarrow> bool" where
  "falsy_string s = (s = None \<or> s = Some [])"

definition falsy_number :: "nat option \<Rightarrow> bool" where
  "falsy_number n = (n = None \<or> n = Some 0)"

text \<open>The body of \<^verbatim>\<open>options.endpoints.forEach\<close>: one canonical endpoint, or the exception.\<close>

definition makeEndpoint :: "nat \<Rightarrow> plugin_options \<Rightarrow> endpoint_options \<Rightarrow> error + endpoint" where
  "makeEndpoint now options option =
     (if falsy_string (opt_ipAddress option) then Inl MissingIpAddress
      else if falsy_number (opt_port option) then Inl MissingPort
      else
        then_do (getOption (myVessel_objects options option) opt_expiryInterval DEFAULT_EXPIRY_INTERVAL) (\<lambda>mvE.
        then_do (getOptionArray (myVessel_objects options option) opt_positionUpdateInterval [DEFAULT_POSITION_UPDATE_INTERVAL]) (\<lambda>mvP.
        then_do (getOptionArray (myVessel_static_objects options option) opt_staticUpdateInterval [DEFAULT_STATIC_DATA_UPDATE_INTERVAL]) (\<lambda>mvS.
        then_do (getOption (myVessel_objects options option) (\<lambda>obj. map_option Some (opt_updateIntervalIndexPath obj)) None) (\<lambda>mvI.
        then_do (getOption (otherVessels_objects options option) opt_expiryInterval DEFAULT_EXPIRY_INTERVAL) (\<lambda>ovE.
        then_do (getOptionArray (otherVessels_objects options option) opt_positionUpdateInterval [DEFAULT_POSITION_UPDATE_INTERVAL]) (\<lambda>ovP.
        then_do (getOptionArray (otherVessels_objects options option) opt_staticUpdateInterval [DEFAULT_STATIC_DATA_UPDATE_INTERVAL]) (\<lambda>ovS.
        then_do (getOption (otherVessels_objects options option) (\<lambda>obj. map_option Some (opt_updateIntervalIndexPath obj)) None) (\<lambda>ovI.
        Inr \<lparr> name = (if falsy_string (opt_name option) then the (opt_ipAddress option) else the (opt_name option)),
              ipAddress = the (opt_ipAddress option),
              port = the (opt_port option),
              myVessel = \<lparr> expiryInterval = mvE, positionUpdateIntervals = mvP,
                           staticUpdateIntervals = mvS, updateIntervalIndexPath = mvI \<rparr>,
              otherVessels = \<lparr> expiryInterval = ovE, positionUpdateIntervals = ovP,
                               staticUpdateIntervals = ovS, updateIntervalIndexPath = ovI \<rparr>,
              statistics = initial_statistics now \<rparr>)))))))))"

fun makeEndpoints :: "nat \<Rightarrow> plugin_options \<Rightarrow> endpoint_options list \<Rightarrow> error + endpoint list" where
  "makeEndpoints now options [] = Inr []"
| "makeEndpoints now options (option # rest) =
     then_do (makeEndpoint now options option) (\<lambda>endpoint.
     then_do (makeEndpoints now options rest) (\<lambda>eps. Inr (endpoint # eps)))"

text \<open>
  \<^verbatim>\<open>makePluginConfiguration(options)\<close>; \<open>selfMMSI\<close> and \<open>selfAisClass\<close> are what
  \<^verbatim>\<open>app.getSelfPath\<close> returns for \<^verbatim>\<open>mmsi\<close> and \<^verbatim>\<open>sensors.ais.class.value\<close>.
\<close>

definition makePluginConfiguration :: "string option \<Rightarrow> string option \<Rightarrow> nat \<Rightarrow> plugin_options \<Rightarrow> error + plugin_configuration" where
  "makePluginConfiguration selfMMSI selfAisClass now options =
     then_do (makeEndpoints now options (opt_endpoints options)) (\<lambda>eps.
       Inr \<lparr> myMMSI = selfMMSI,
             myAisClass = (if falsy_string selfAisClass then DEFAULT_MY_AIS_CLASS else the selfAisClass),
             endpoints = eps \<rparr>)"

section \<open>Report generators\<close>

text \<open>
  \<^verbatim>\<open>sendReportMsg(socket, msg, endpoint)\<close>: the datagram is the message and a newline; the
  result is \<^verbatim>\<open>msg.length + 1\<close>. The send is fire-and-forget.
\<close>

definition sendReportMsg :: "socket \<Rightarrow> string \<Rightarrow> 'e endpoint_scheme \<Rightarrow> socket \<times> nat" where
  "sendReportMsg socket msg endpoint =
     (socket @ [(msg @ [CHR 0x0A], port endpoint, ipAddress endpoint)], length msg + 1)"

text \<open>The two \<^verbatim>\<open>filter\<close> callbacks shared by both generators, in the source's order.\<close>

definition class_filter :: "plugin_configuration \<Rightarrow> bool \<Rightarrow> bool \<Rightarrow> 'a vessel_scheme \<Rightarrow> bool" where
  "class_filter pluginConfiguration reportSelf reportOthers vessel =
     ((reportSelf \<and> mmsi vessel = myMMSI pluginConfiguration)
      \<or> (reportOthers \<and> mmsi vessel \<noteq> myMMSI pluginConfiguration))"

definition expiry_filter :: "nat \<Rightarrow> endpoint \<Rightarrow> bool \<Rightarrow> bool \<Rightarrow> 'a vessel_scheme \<Rightarrow> bool" where
  "expiry_filter now endpoint reportSelf reportOthers vessel =
     ((reportSelf \<and> (case position_timestamp vessel of None \<Rightarrow> False
          | Some ts \<Rightarrow> int ts > int now - int (expiryInterval (myVessel endpoint)) * 6000))
      \<or> (reportOthers \<and> (case position_timestamp vessel of None \<Rightarrow> False
          | Some ts \<Rightarrow> int ts > int now - int (expiryInterval (otherVessels endpoint)) * 60000)))"

definition eligible :: "plugin_configuration \<Rightarrow> nat \<Rightarrow> endpoint \<Rightarrow> bool \<Rightarrow> bool \<Rightarrow> 'a vessel_scheme \<Rightarrow> bool" where
  "eligible pluginConfiguration now endpoint reportSelf reportOthers vessel =
     (class_filter pluginConfiguration reportSelf reportOthers vessel
      \<and> expiry_filter now endpoint reportSelf reportOthers vessel)"

definition aisClass_of :: "plugin_configuration \<Rightarrow> 'a vessel_scheme \<Rightarrow> string" where
  "aisClass_of pluginConfiguration vessel =
     (if mmsi vessel = myMMSI pluginConfiguration then myAisClass pluginConfiguration
      else (case ais_class vessel of None \<Rightarrow> DEFAULT_MY_AIS_CLASS | Some c \<Rightarrow> c))"

text \<open>
  The bookkeeping after a successful send, written three times in the source: one report
  and the bytes go to the bucket of the vessel's class.
\<close>

definition count_report :: "plugin_configuration \<Rightarrow> bool \<Rightarrow> 'a vessel_scheme \<Rightarrow> nat \<Rightarrow> report_statistics \<Rightarrow> report_statistics" where
  "count_report pluginConfiguration reportSelf vessel bytesTransmitted reportStatistics =
     (if reportSelf \<and> mmsi vessel = myMMSI pluginConfiguration
      then reportStatistics\<lparr> myVessel_count := myVessel_count reportStatistics + 1,
              myVessel_bytes := myVessel_bytes reportStatistics + bytesTransmitted \<rparr>
      else reportStatistics\<lparr> otherVessels_count := otherVessels_count reportStatistics + 1,
              otherVessels_bytes := otherVessels_bytes reportStatistics + bytesTransmitted \<rparr>)"

definition no_reports :: report_statistics where
  "no_reports = \<lparr> myVessel_count = 0, myVessel_bytes = 0, otherVessels_count = 0, otherVessels_bytes = 0 \<rparr>"

text \<open>The body of \<^verbatim>\<open>forEach\<close> in \<^verbatim>\<open>reportPosition\<close>, with its \<^verbatim>\<open>try\<close>/\<^verbatim>\<open>catch\<close>.\<close>

definition reportPosition_vessel :: "plugin_configuration \<Rightarrow> 'a encoder \<Rightarrow> endpoint \<Rightarrow> bool \<Rightarrow> socket \<times> report_statistics \<Rightarrow> 'a vessel_scheme \<Rightarrow> socket \<times> report_statistics" where
  "reportPosition_vessel pluginConfiguration AisEncode endpoint reportSelf state vessel =
     (let aisClass = aisClass_of pluginConfiguration vessel in
      case AisEncode vessel (if aisClass = ''A'' then 1 else 18) None of
        Some nmea \<Rightarrow>
          (let (socket', bytesTransmitted) = sendReportMsg (fst state) nmea endpoint
           in (socket', count_report pluginConfiguration reportSelf vessel bytesTransmitted (snd state)))
      | None \<Rightarrow> state)"

definition reportPosition :: "plugin_configuration \<Rightarrow> 'a encoder \<Rightarrow> 'a vessel_scheme list \<Rightarrow> nat \<Rightarrow> socket \<Rightarrow> endpoint \<Rightarrow> bool \<Rightarrow> bool \<Rightarrow> socket \<times> report_statistics" where
  "reportPosition pluginConfiguration AisEncode vessels now socket endpoint reportSelf reportOthers =
     foldl (reportPosition_vessel pluginConfiguration AisEncode endpoint reportSelf) (socket, no_reports)
       (filter (expiry_filter now endpoint reportSelf reportOthers)
         (filter (class_filter pluginConfiguration reportSelf reportOthers) vessels))"

text \<open>
  The body of \<^verbatim>\<open>forEach\<close> in \<^verbatim>\<open>reportStatic\<close>: class A sends message 5, class B sends
  message 24 in two parts when both encode, any other class sends nothing.
\<close>

definition reportStatic_vessel :: "plugin_configuration \<Rightarrow> 'a encoder \<Rightarrow> endpoint \<Rightarrow> bool \<Rightarrow> socket \<times> report_statistics \<Rightarrow> 'a vessel_scheme \<Rightarrow> socket \<times> report_statistics" where
  "reportStatic_vessel pluginConfiguration AisEncode endpoint reportSelf state vessel =
     (let aisClass = aisClass_of pluginConfiguration vessel in
      if aisClass = ''A'' then
        (case AisEncode vessel 5 None of
           Some nmea \<Rightarrow>
             (let (socket', bytesTransmitted) = sendReportMsg (fst state) nmea endpoint
              in (socket', count_report pluginConfiguration reportSelf vessel bytesTransmitted (snd state)))
         | None \<Rightarrow> state)
      else if aisClass = ''B'' then
        (case AisEncode vessel 24 (Some 0) of
           Some nmea \<Rightarrow>
             (case AisEncode vessel 24 (Some 1) of
                Some nmeaB \<Rightarrow>
                  (let (socket', bytesTransmitted) = sendReportMsg (fst state) nmea endpoint;
                       (socket'', bytesTransmittedB) = sendReportMsg socket' nmeaB endpoint
                   in (socket'', count_report pluginConfiguration reportSelf vessel
                                   (bytesTransmitted + bytesTransmittedB) (snd state)))
              | None \<Rightarrow> state)
         | None \<Rightarrow> state)
      else state)"

definition reportStatic :: "plugin_configuration \<Rightarrow> 'a encoder \<Rightarrow> 'a vessel_scheme list \<Rightarrow> nat \<Rightarrow> socket \<Rightarrow> endpoint \<Rightarrow> bool \<Rightarrow> bool \<Rightarrow> socket \<times> report_statistics" where
  "reportStatic pluginConfiguration AisEncode vessels now socket endpoint reportSelf reportOthers =
     foldl (reportStatic_vessel pluginConfiguration AisEncode endpoint reportSelf) (socket, no_reports)
       (filter (expiry_filter now endpoint reportSelf reportOthers)
         (filter (class_filter pluginConfiguration reportSelf reportOthers) vessels))"

section \<open>Statistics\<close>

text \<open>
  \<^verbatim>\<open>updateVector(vector, rollover, heartbeat, value)\<close>. The vectors are created with 60 and
  24 slots and are never empty; on an empty vector, where the source would store NaN, the
  model leaves the vector empty.
\<close>

definition updateVector :: "nat list \<Rightarrow> nat \<Rightarrow> nat \<Rightarrow> nat \<Rightarrow> nat list" where
  "updateVector vector rollover heartbeat value =
     (let vector' = (case vector of [] \<Rightarrow> [] | v # vs \<Rightarrow> (v + value) # vs)
      in if heartbeat \<noteq> 0 \<and> heartbeat mod rollover = 0
         then 0 # take (rollover - 1) vector'
         else vector')"

definition updateReportStatistics :: "nat \<Rightarrow> nat \<Rightarrow> report_type_statistics \<Rightarrow> report_statistics \<Rightarrow> report_type_statistics" where
  "updateReportStatistics now heartbeatCount endpointReportStatistics reportStatistics =
     (let count = myVessel_count reportStatistics + otherVessels_count reportStatistics;
          bytes = myVessel_bytes reportStatistics + otherVessels_bytes reportStatistics
      in \<lparr> lastReportTimestamp = Some now,
           totalBytesTransmitted = totalBytesTransmitted endpointReportStatistics + bytes,
           bytesTransmittedInLastHour = updateVector (bytesTransmittedInLastHour endpointReportStatistics) 60 heartbeatCount bytes,
           bytesTransmittedInLastDay = updateVector (bytesTransmittedInLastDay endpointReportStatistics) 24 heartbeatCount bytes,
           totalReportsTransmitted = totalReportsTransmitted endpointReportStatistics + count,
           reportsTransmittedInLastHour = updateVector (reportsTransmittedInLastHour endpointReportStatistics) 60 heartbeatCount count,
           reportsTransmittedInLastDay = updateVector (reportsTransmittedInLastDay endpointReportStatistics) 24 heartbeatCount count \<rparr>)"

section \<open>The heartbeat\<close>

text \<open>
  What one heartbeat reads from outside: the vessels of the store, the clock, and
  \<^verbatim>\<open>app.getSelfPath\<close> on the index paths (\<open>None\<close> for a missing value).
\<close>

record 'a tick_input =
  vessels :: "'a vessel_scheme list"
  clock :: nat
  getSelfPath :: "string \<Rightarrow> int option"

text \<open>
  \<^verbatim>\<open>(path) ? (app.getSelfPath(`${path}.value`) || 0) : 0\<close>: an absent or empty path, and a
  missing value, give index 0.
\<close>

definition resolve_index :: "(string \<Rightarrow> int option) \<Rightarrow> string option \<Rightarrow> int" where
  "resolve_index selfPath path =
     (if falsy_string path then 0
      else (case selfPath (the path @ ''.value'') of None \<Rightarrow> 0 | Some i \<Rightarrow> i))"

text \<open>
  \<^verbatim>\<open>_.get(endpoint, `myVessel.positionUpdateIntervals[${IDX}]`, 0)\<close>: the element at the
  index, and the default 0 when the array has no element there.
\<close>

definition get_interval :: "nat list \<Rightarrow> int \<Rightarrow> nat" where
  "get_interval intervals idx =
     (if 0 \<le> idx \<and> idx < int (length intervals) then intervals ! nat idx else 0)"

text \<open>
  The two forms of the firing test: \<^verbatim>\<open>(UI !== 0) && ((heartbeatCount % UI) === 0)\<close> in the
  condition, and \<^verbatim>\<open>(UI === 0) ? false : ((heartbeatCount % UI) === 0)\<close> in the flag handed
  to the generator.
\<close>

definition report_due :: "nat \<Rightarrow> nat \<Rightarrow> bool" where
  "report_due heartbeatCount ui = (ui \<noteq> 0 \<and> heartbeatCount mod ui = 0)"

definition report_flag :: "nat \<Rightarrow> nat \<Rightarrow> bool" where
  "report_flag heartbeatCount ui = (if ui = 0 then False else heartbeatCount mod ui = 0)"

text \<open>The resolved intervals \<^verbatim>\<open>mvPUI\<close>, \<^verbatim>\<open>mvSUI\<close>, \<^verbatim>\<open>ovPUI\<close>, \<^verbatim>\<open>ovSUI\<close> of an endpoint.\<close>

definition mvIDX :: "(string \<Rightarrow> int option) \<Rightarrow> endpoint \<Rightarrow> int" where
  "mvIDX selfPath endpoint = resolve_index selfPath (updateIntervalIndexPath (myVessel endpoint))"

definition ovIDX :: "(string \<Rightarrow> int option) \<Rightarrow> endpoint \<Rightarrow> int" where
  "ovIDX selfPath endpoint = resolve_index selfPath (updateIntervalIndexPath (otherVessels endpoint))"

definition mvPUI :: "(string \<Rightarrow> int option) \<Rightarrow> endpoint \<Rightarrow> nat" where
  "mvPUI selfPath endpoint = get_interval (positionUpdateIntervals (myVessel endpoint)) (mvIDX selfPath endpoint)"

definition mvSUI :: "(string \<Rightarrow> int option) \<Rightarrow> endpoint \<Rightarrow> nat" where
  "mvSUI selfPath endpoint = get_interval (staticUpdateIntervals (myVessel endpoint)) (mvIDX selfPath endpoint)"

definition ovPUI :: "(string \<Rightarrow> int option) \<Rightarrow> endpoint \<Rightarrow> nat" where
  "ovPUI selfPath endpoint = get_interval (positionUpdateIntervals (otherVessels endpoint)) (ovIDX selfPath endpoint)"

definition ovSUI :: "(string \<Rightarrow> int option) \<Rightarrow> endpoint \<Rightarrow> nat" where
  "ovSUI selfPath endpoint = get_interval (staticUpdateIntervals (otherVessels endpoint)) (ovIDX selfPath endpoint)"

text \<open>
  The position half and the static half of the \<^verbatim>\<open>try\<close> block of one endpoint. Each returns
  the socket and the endpoint with the statistics of its report type updated. The local
  \<^verbatim>\<open>totalBytes\<close> of the source is computed and then dropped, so it has no place here.
  The vessel store is taken to be present, so nothing in the block throws past the
  \<^verbatim>\<open>catch\<close> of a single vessel.
\<close>

definition position_step :: "plugin_configuration \<Rightarrow> 'a encoder \<Rightarrow> 'a tick_input \<Rightarrow> nat \<Rightarrow> socket \<times> endpoint \<Rightarrow> socket \<times> endpoint" where
  "position_step pluginConfiguration AisEncode input heartbeatCount state =
     (let endpoint = snd state;
          mv = mvPUI (getSelfPath input) endpoint;
          ov = ovPUI (getSelfPath input) endpoint
      in if report_due heartbeatCount mv \<or> report_due heartbeatCount ov
         then (let (socket', reportStatistics) =
                     reportPosition pluginConfiguration AisEncode (vessels input) (clock input) (fst state) endpoint
                       (report_flag heartbeatCount mv) (report_flag heartbeatCount ov)
               in (socket', endpoint\<lparr> statistics := (statistics endpoint)
                     \<lparr> position := updateReportStatistics (clock input) heartbeatCount
                                     (position (statistics endpoint)) reportStatistics \<rparr> \<rparr>))
         else state)"

definition static_step :: "plugin_configuration \<Rightarrow> 'a encoder \<Rightarrow> 'a tick_input \<Rightarrow> nat \<Rightarrow> socket \<times> endpoint \<Rightarrow> socket \<times> endpoint" where
  "static_step pluginConfiguration AisEncode input heartbeatCount state =
     (let endpoint = snd state;
          mv = mvSUI (getSelfPath input) endpoint;
          ov = ovSUI (getSelfPath input) endpoint
      in if report_due heartbeatCount mv \<or> report_due heartbeatCount ov
         then (let (socket', reportStatistics) =
                     reportStatic pluginConfiguration AisEncode (vessels input) (clock input) (fst state) endpoint
                       (report_flag heartbeatCount mv) (report_flag heartbeatCount ov)
               in (socket', endpoint\<lparr> statistics := (statistics endpoint)
                     \<lparr> static := updateReportStatistics (clock input) heartbeatCount
                                   (static (statistics endpoint)) reportStatistics \<rparr> \<rparr>))
         else state)"

definition endpoint_tick :: "plugin_configuration \<Rightarrow> 'a encoder \<Rightarrow> 'a tick_input \<Rightarrow> nat \<Rightarrow> socket \<times> endpoint \<Rightarrow> socket \<times> endpoint" where
  "endpoint_tick pluginConfiguration AisEncode input heartbeatCount state =
     static_step pluginConfiguration AisEncode input heartbeatCount
       (position_step pluginConfiguration AisEncode input heartbeatCount state)"

text \<open>
  The timer callback: every endpoint in turn on the same socket, then
  \<^verbatim>\<open>heartbeatCount++\<close>. The state is the configuration (whose endpoints hold the
  statistics), the socket and the counter.
\<close>

fun tick_endpoints :: "plugin_configuration \<Rightarrow> 'a encoder \<Rightarrow> 'a tick_input \<Rightarrow> nat \<Rightarrow> socket \<Rightarrow> endpoint list \<Rightarrow> socket \<times> endpoint list" where
  "tick_endpoints pluginConfiguration AisEncode input heartbeatCount socket [] = (socket, [])"
| "tick_endpoints pluginConfiguration AisEncode input heartbeatCount socket (endpoint # rest) =
     (let (socket', endpoint') = endpoint_tick pluginConfiguration AisEncode input heartbeatCount (socket, endpoint);
          (socket'', rest') = tick_endpoints pluginConfiguration AisEncode input heartbeatCount socket' rest
      in (socket'', endpoint' # rest'))"

definition heartbeat :: "'a encoder \<Rightarrow> plugin_configuration \<times> socket \<times> nat \<Rightarrow> 'a tick_input \<Rightarrow> plugin_configuration \<times> socket \<times> nat" where
  "heartbeat AisEncode state input =
     (case state of (pluginConfiguration, socket, heartbeatCount) \<Rightarrow>
        (let (socket', eps) = tick_endpoints pluginConfiguration AisEncode input heartbeatCount socket
                                (endpoints pluginConfiguration)
         in (pluginConfiguration\<lparr> endpoints := eps \<rparr>, socket', heartbeatCount + 1)))"

definition startReporting :: "'a encoder \<Rightarrow> plugin_configuration \<Rightarrow> 'a tick_input list \<Rightarrow> plugin_configuration \<times> socket \<times> nat" where
  "startReporting AisEncode pluginConfiguration inputs =
     foldl (heartbeat AisEncode) (pluginConfiguration, [], 0) inputs"

section \<open>Status\<close>

text \<open>
  The \<^verbatim>\<open>/status\<close> digest of one endpoint. A time is \<open>None\<close> where the source prints
  \<^verbatim>\<open>never\<close>; the rolling vectors are reduced to their sums.
\<close>

record report_type_status =
  status_lastReportTime :: "nat option"
  status_totalReportsTransmitted :: nat
  status_totalBytesTransmitted :: nat
  status_reportsTransmittedInLastHour :: nat
  status_bytesTransmittedInLastHour :: nat
  status_reportsTransmittedInLastDay :: nat
  status_bytesTransmittedInLastDay :: nat

record endpoint_status =
  status_ipAddress :: string
  status_port :: nat
  status_started :: "nat option"
  status_endpointTotalBytesTransmitted :: nat
  status_position :: report_type_status
  status_static :: report_type_status

definition report_type_digest :: "report_type_statistics \<Rightarrow> report_type_status" where
  "report_type_digest s =
     \<lparr> status_lastReportTime =
         (case lastReportTimestamp s of None \<Rightarrow> None | Some t \<Rightarrow> if t = 0 then None else Some t),
       status_totalReportsTransmitted = totalReportsTransmitted s,
       status_totalBytesTransmitted = totalBytesTransmitted s,
       status_reportsTransmittedInLastHour = sum_list (reportsTransmittedInLastHour s),
       status_bytesTransmittedInLastHour = sum_list (bytesTransmittedInLastHour s),
       status_reportsTransmittedInLastDay = sum_list (reportsTransmittedInLastDay s),
       status_bytesTransmittedInLastDay = sum_list (bytesTransmittedInLastDay s) \<rparr>"

definition endpoint_digest :: "endpoint \<Rightarrow> endpoint_status" where
  "endpoint_digest endpoint =
     \<lparr> status_ipAddress = ipAddress endpoint,
       status_port = port endpoint,
       status_started = (if started (statistics endpoint) = 0 then None else Some (started (statistics endpoint))),
       status_endpointTotalBytesTransmitted = endpointTotalBytesTransmitted (statistics endpoint),
       status_position = report_type_digest (position (statistics endpoint)),
       status_static = report_type_digest (static (statistics endpoint)) \<rparr>"

text \<open>\<^verbatim>\<open>handleRoutes\<close> on \<^verbatim>\<open>/status\<close>: the digests keyed by endpoint name, a later endpoint of the same name replacing an earlier one.\<close>

definition handleRoutes :: "plugin_configuration \<Rightarrow> string \<rightharpoonup> endpoint_status" where
  "handleRoutes pluginConfiguration =
     foldl (\<lambda>a endpoint. a(name endpoint \<mapsto> endpoint_digest endpoint)) Map.empty (endpoints pluginConfiguration)"

section \<open>Example inputs\<close>

text \<open>
  One endpoint that sets its intervals itself: position every 5 heartbeats, or every
  heartbeat when the index path selects 1, and static data every 15.
\<close>

definition example_endpoint_options :: endpoint_options where
  "example_endpoint_options =
     \<lparr> opt_expiryInterval = None, opt_positionUpdateInterval = Some (Sequence [5, 1]),
       opt_staticUpdateInterval = Some (Scalar 15), opt_updateIntervalIndexPath = Some ''navigation.state'',
       opt_myVessel = None, opt_otherVessels = None,
       opt_name = None, opt_ipAddress = Some ''192.168.1.12'', opt_port = Some 12345 \<rparr>"

definition example_options :: plugin_options where
  "example_options =
     \<lparr> opt_expiryInterval = None, opt_positionUpdateInterval = None,
       opt_staticUpdateInterval = None, opt_updateIntervalIndexPath = None,
       opt_myVessel = None, opt_otherVessels = None,
       opt_endpoints = [example_endpoint_options] \<rparr>"

definition example_vessel_config :: vessel_config where
  "example_vessel_config =
     \<lparr> expiryInterval = 15, positionUpdateIntervals = [5, 1], staticUpdateIntervals = [15],
       updateIntervalIndexPath = Some ''navigation.state'' \<rparr>"

definition example_endpoint :: endpoint where
  "example_endpoint =
     \<lparr> name = ''192.168.1.12'', ipAddress = ''192.168.1.12'', port = 12345,
       myVessel = example_vessel_config, otherVessels = example_vessel_config,
       statistics = initial_statistics 1000 \<rparr>"

definition example_configuration :: plugin_configuration where
  "example_configuration =
     \<lparr> myMMSI = Some ''235012345'', myAisClass = ''B'', endpoints = [example_endpoint] \<rparr>"

text \<open>
  Three vessels: the own vessel, another vessel with a class A transceiver, and a class B
  vessel whose second static part does not encode. The index value in the store is 1.
\<close>

definition own_vessel :: vessel where
  "own_vessel = \<lparr> mmsi = Some ''235012345'', position_timestamp = Some 990000, ais_class = None \<rparr>"

definition other_vessel :: vessel where
  "other_vessel = \<lparr> mmsi = Some ''211000001'', position_timestamp = Some 980000, ais_class = Some ''A'' \<rparr>"

definition broken_vessel :: vessel where
  "broken_vessel = \<lparr> mmsi = Some ''244000002'', position_timestamp = Some 970000, ais_class = Some ''B'' \<rparr>"

definition example_encoder :: "unit encoder" where
  "example_encoder vessel aistype part =
     (if mmsi vessel = Some ''244000002'' \<and> part = Some 1 then None
      else if part = Some 1 then Some ''!AIVDM,B''
      else Some ''!AIVDM'')"

definition example_selfPath :: "string \<Rightarrow> int option" where
  "example_selfPath path = (if path = ''navigation.state.value'' then Some 1 else None)"

definition example_input :: "unit tick_input" where
  "example_input = \<lparr> vessels = [own_vessel, other_vessel, broken_vessel], clock = 1000000,
                      getSelfPath = example_selfPath \<rparr>"

text \<open>
  A vessel of another ship whose fix is exactly 15 minutes old at time 1000000, one whose
  fix is of this instant, the own vessel with a fix 15 minutes old, and the example
  endpoint with an expiry interval of 0 for other vessels.
\<close>

definition boundary_vessel :: vessel where
  "boundary_vessel = \<lparr> mmsi = Some ''211000001'', position_timestamp = Some 100000, ais_class = Some ''A'' \<rparr>"

definition fresh_vessel :: vessel where
  "fresh_vessel = \<lparr> mmsi = Some ''211000001'', position_timestamp = Some 1000000, ais_class = Some ''A'' \<rparr>"

definition stale_own_vessel :: vessel where
  "stale_own_vessel = \<lparr> mmsi = Some ''235012345'', position_timestamp = Some 100000, ais_class = None \<rparr>"

definition zero_expiry_endpoint :: endpoint where
  "zero_expiry_endpoint = example_endpoint\<lparr> otherVessels := example_vessel_config\<lparr> expiryInterval := 0 \<rparr> \<rparr>"

text \<open>The state after the first heartbeat of the example.\<close>

definition example_run :: "plugin_configuration \<times> socket \<times> nat" where
  "example_run = startReporting example_encoder example_configuration [example_input]"

text \<open>
  Raw options: an endpoint with nothing but address and port, under global options that
  are empty or set the static interval to 10; the same endpoint with a static interval
  for its own vessel; and an endpoint that asks for static data every 5 heartbeats and
  positions every 10.
\<close>

definition plain_endpoint_options :: endpoint_options where
  "plain_endpoint_options =
     \<lparr> opt_expiryInterval = None, opt_positionUpdateInterval = None,
       opt_staticUpdateInterval = None, opt_updateIntervalIndexPath = None,
       opt_myVessel = None, opt_otherVessels = None,
       opt_name = None, opt_ipAddress = Some ''192.168.1.12'', opt_port = Some 12345 \<rparr>"

definition global_static_options :: plugin_options where
  "global_static_options =
     \<lparr> opt_expiryInterval = None, opt_positionUpdateInterval = None,
       opt_staticUpdateInterval = Some (Scalar 10), opt_updateIntervalIndexPath = None,
       opt_myVessel = None, opt_otherVessels = None,
       opt_endpoints = [plain_endpoint_options] \<rparr>"

definition default_options :: plugin_options where
  "default_options =
     \<lparr> opt_expiryInterval = None, opt_positionUpdateInterval = None,
       opt_staticUpdateInterval = None, opt_updateIntervalIndexPath = None,
       opt_myVessel = None, opt_otherVessels = None,
       opt_endpoints = [plain_endpoint_options] \<rparr>"

definition own_static_endpoint_options :: endpoint_options where
  "own_static_endpoint_options =
     plain_endpoint_options\<lparr> opt_myVessel := Some (empty_object\<lparr> opt_staticUpdateInterval := Some (Scalar 30) \<rparr>) \<rparr>"

definition own_static_endpoint :: endpoint where
  "own_static_endpoint =
     \<lparr> name = ''192.168.1.12'', ipAddress = ''192.168.1.12'', port = 12345,
       myVessel = \<lparr> expiryInterval = 15, positionUpdateIntervals = [5], staticUpdateIntervals = [30],
                    updateIntervalIndexPath = None \<rparr>,
       otherVessels = \<lparr> expiryInterval = 15, positionUpdateIntervals = [5], staticUpdateIntervals = [15],
                        updateIntervalIndexPath = None \<rparr>,
       statistics = initial_statistics 1000 \<rparr>"

definition fast_static_endpoint_options :: endpoint_options where
  "fast_static_endpoint_options =
     \<lparr> opt_expiryInterval = None, opt_positionUpdateInterval = Some (Scalar 10),
       opt_staticUpdateInterval = Some (Scalar 5), opt_updateIntervalIndexPath = None,
       opt_myVessel = None, opt_otherVessels = None,
       opt_name = None, opt_ipAddress = Some ''192.168.1.12'', opt_port = Some 12345 \<rparr>"

definition fast_static_options :: plugin_options where
  "fast_static_options =
     \<lparr> opt_expiryInterval = None, opt_positionUpdateInterval = None,
       opt_staticUpdateInterval = None, opt_updateIntervalIndexPath = None,
       opt_myVessel = None, opt_otherVessels = None,
       opt_endpoints = [fast_static_endpoint_options] \<rparr>"

definition fast_static_vessel_config :: vessel_config where
  "fast_static_vessel_config =
     \<lparr> expiryInterval = 15, positionUpdateIntervals = [10], staticUpdateIntervals = [5],
       updateIntervalIndexPath = None \<rparr>"

definition fast_static_endpoint :: endpoint where
  "fast_static_endpoint =
     \<lparr> name = ''192.168.1.12'', ipAddress = ''192.168.1.12'', port = 12345,
       myVessel = fast_static_vessel_config, otherVessels = fast_static_vessel_config,
       statistics = initial_statistics 1000 \<rparr>"

section \<open>What a generator did for one vessel\<close>

text \<open>
  \<open>datagrams\<close> are the datagrams that carry the given sentences to an endpoint;
  \<open>add_to_bucket\<close> adds a report count and a byte count to the bucket of one class.
\<close>

definition datagrams :: "endpoint \<Rightarrow> string list \<Rightarrow> socket" where
  "datagrams endpoint msgs = map (\<lambda>msg. (msg @ [CHR 0x0A], port endpoint, ipAddress endpoint)) msgs"

definition add_to_bucket :: "bool \<Rightarrow> nat \<Rightarrow> nat \<Rightarrow> report_statistics \<Rightarrow> report_statistics" where
  "add_to_bucket self count bytes rs =
     (if self then rs\<lparr> myVessel_count := myVessel_count rs + count, myVessel_bytes := myVessel_bytes rs + bytes \<rparr>
      else rs\<lparr> otherVessels_count := otherVessels_count rs + count, otherVessels_bytes := otherVessels_bytes rs + bytes \<rparr>)"

section \<open>Invariants of the statistics\<close>

text \<open>
  The hour window of a report type never holds more reports than the total, and totals
  only grow from one state to the next.
\<close>

definition hour_bounded :: "report_type_statistics \<Rightarrow> bool" where
  "hour_bounded s = (sum_list (reportsTransmittedInLastHour s) \<le> totalReportsTransmitted s)"

definition stats_le :: "report_type_statistics \<Rightarrow> report_type_statistics \<Rightarrow> bool" where
  "stats_le s s' = (totalReportsTransmitted s \<le> totalReportsTransmitted s'
                    \<and> totalBytesTransmitted s \<le> totalBytesTransmitted s')"

definition endpoint_le :: "endpoint \<Rightarrow> endpoint \<Rightarrow> bool" where
  "endpoint_le e e' = (stats_le (position (statistics e)) (position (statistics e'))
                    \<and> stats_le (static (statistics e)) (static (statistics e')))"

definition endpoint_bounded :: "endpoint \<Rightarrow> bool" where
  "endpoint_bounded e = (hour_bounded (position (statistics e)) \<and> hour_bounded (static (statistics e)))"

text \<open>
  \<open>as_array\<close> is the sequence a raw interval stands for; \<open>untouched_total\<close> says that
  the endpoint-level byte total is still 0.
\<close>

definition as_array :: "interval_option \<Rightarrow> nat list" where
  "as_array v = (case v of Scalar n \<Rightarrow> [n] | Sequence ns \<Rightarrow> ns)"

definition untouched_total :: "endpoint \<Rightarrow> bool" where
  "untouched_total e = (endpointTotalBytesTransmitted (statistics e) = 0)"

section \<open>Verified properties\<close>

subsection \<open>Rolling vectors and totals\<close>

lemma sum_list_take_le: "sum_list (take n xs) \<le> sum_list (xs::nat list)"
  by (induction xs arbitrary: n) (auto simp: take_Cons split: nat.splits intro: le_trans)

lemma updateVector_sum_le: "sum_list (updateVector vector N t v) \<le> sum_list vector + v"
proof (cases vector)
  case Nil
  then show ?thesis by (simp add: updateVector_def)
next
  case (Cons x xs)
  have "sum_list (take (N - 1) ((x + v) # xs)) \<le> sum_list ((x + v) # xs)"
    by (rule sum_list_take_le)
  with Cons show ?thesis by (simp add: updateVector_def Let_def)
qed

lemma updateReportStatistics_hour_bounded:
  "hour_bounded s \<Longrightarrow> hour_bounded (updateReportStatistics now hb s rs)"
  using updateVector_sum_le [of "reportsTransmittedInLastHour s" 60 hb "myVessel_count rs + otherVessels_count rs"]
  by (simp add: hour_bounded_def updateReportStatistics_def Let_def)

lemma updateReportStatistics_mono:
  "totalReportsTransmitted s \<le> totalReportsTransmitted (updateReportStatistics now hb s rs)"
  "totalBytesTransmitted s \<le> totalBytesTransmitted (updateReportStatistics now hb s rs)"
  by (simp_all add: updateReportStatistics_def Let_def)

lemma position_step_le: "endpoint_le (snd st) (snd (position_step cfg enc inp hb st))"
  by (auto simp: position_step_def Let_def endpoint_le_def stats_le_def updateReportStatistics_mono split: prod.splits)

lemma static_step_le: "endpoint_le (snd st) (snd (static_step cfg enc inp hb st))"
  by (auto simp: static_step_def Let_def endpoint_le_def stats_le_def updateReportStatistics_mono split: prod.splits)

lemma endpoint_le_trans: "endpoint_le a b \<Longrightarrow> endpoint_le b c \<Longrightarrow> endpoint_le a c"
  by (auto simp: endpoint_le_def stats_le_def)

lemma endpoint_tick_le: "endpoint_le (snd st) (snd (endpoint_tick cfg enc inp hb st))"
  unfolding endpoint_tick_def
  by (rule endpoint_le_trans [OF position_step_le static_step_le])

lemma position_step_bounded: "endpoint_bounded (snd st) \<Longrightarrow> endpoint_bounded (snd (position_step cfg enc inp hb st))"
  by (auto simp: position_step_def Let_def endpoint_bounded_def updateReportStatistics_hour_bounded split: prod.splits)

lemma static_step_bounded: "endpoint_bounded (snd st) \<Longrightarrow> endpoint_bounded (snd (static_step cfg enc inp hb st))"
  by (auto simp: static_step_def Let_def endpoint_bounded_def updateReportStatistics_hour_bounded split: prod.splits)

lemma endpoint_tick_bounded: "endpoint_bounded (snd st) \<Longrightarrow> endpoint_bounded (snd (endpoint_tick cfg enc inp hb st))"
  unfolding endpoint_tick_def
  by (intro static_step_bounded position_step_bounded)

lemma tick_endpoints_Cons:
  "snd (tick_endpoints cfg enc inp hb sock (e # eps)) =
     snd (endpoint_tick cfg enc inp hb (sock, e))
       # snd (tick_endpoints cfg enc inp hb (fst (endpoint_tick cfg enc inp hb (sock, e))) eps)"
  by (simp split: prod.splits)

lemma tick_endpoints_length: "length (snd (tick_endpoints cfg enc inp hb sock eps)) = length eps"
proof (induction eps arbitrary: sock)
  case Nil
  then show ?case by simp
next
  case (Cons e eps)
  show ?case unfolding tick_endpoints_Cons by (simp add: Cons.IH)
qed

lemma tick_endpoints_le:
  "list_all2 endpoint_le eps (snd (tick_endpoints cfg enc inp hb sock eps))"
proof (induction eps arbitrary: sock)
  case Nil
  then show ?case by simp
next
  case (Cons e eps)
  have "endpoint_le e (snd (endpoint_tick cfg enc inp hb (sock, e)))"
    using endpoint_tick_le [of "(sock, e)" cfg enc inp hb] by simp
  then show ?case unfolding tick_endpoints_Cons by (simp add: Cons.IH)
qed

lemma tick_endpoints_bounded:
  "list_all endpoint_bounded eps \<Longrightarrow> list_all endpoint_bounded (snd (tick_endpoints cfg enc inp hb sock eps))"
proof (induction eps arbitrary: sock)
  case Nil
  then show ?case by simp
next
  case (Cons e eps)
  have "endpoint_bounded (snd (endpoint_tick cfg enc inp hb (sock, e)))"
    using endpoint_tick_bounded [of "(sock, e)" cfg enc inp hb] Cons.prems by simp
  then show ?case unfolding tick_endpoints_Cons using Cons.prems by (simp add: Cons.IH)
qed

lemma heartbeat_endpoints:
  "endpoints (fst (heartbeat enc (cfg, sock, hb) inp)) = snd (tick_endpoints cfg enc inp hb sock (endpoints cfg))"
  by (simp add: heartbeat_def split: prod.splits)

lemma heartbeat_bounded:
  "list_all endpoint_bounded (endpoints (fst st)) \<Longrightarrow> list_all endpoint_bounded (endpoints (fst (heartbeat enc st inp)))"
  by (cases st) (simp add: heartbeat_endpoints tick_endpoints_bounded)

lemma heartbeat_le:
  "list_all2 endpoint_le (endpoints (fst st)) (endpoints (fst (heartbeat enc st inp)))"
  by (cases st) (simp add: heartbeat_endpoints tick_endpoints_le)

lemma foldl_heartbeat_bounded:
  "list_all endpoint_bounded (endpoints (fst st)) \<Longrightarrow> list_all endpoint_bounded (endpoints (fst (foldl (heartbeat enc) st inps)))"
  by (induction inps arbitrary: st) (auto simp: heartbeat_bounded)

lemma initial_bounded: "hour_bounded initial_report_type_statistics"
  by (simp add: hour_bounded_def initial_report_type_statistics_def)

lemma makeEndpoint_statistics:
  "makeEndpoint now options option = Inr ep \<Longrightarrow> statistics ep = initial_statistics now"
  by (auto simp: makeEndpoint_def then_do_def split: if_splits sum.splits)

lemma makeEndpoints_statistics:
  "makeEndpoints now options opts = Inr eps \<Longrightarrow> list_all (\<lambda>ep. statistics ep = initial_statistics now) eps"
  by (induction opts arbitrary: eps) (auto simp: then_do_def makeEndpoint_statistics split: sum.splits)

lemma makePluginConfiguration_statistics:
  "makePluginConfiguration m c now options = Inr cfg \<Longrightarrow> list_all (\<lambda>ep. statistics ep = initial_statistics now) (endpoints cfg)"
  by (auto simp: makePluginConfiguration_def then_do_def makeEndpoints_statistics split: sum.splits)

lemma example_normalised:
  "makePluginConfiguration (Some ''235012345'') None 1000 example_options = Inr example_configuration"
  by (simp add: makePluginConfiguration_def makeEndpoint_def then_do_def example_options_def
      example_endpoint_options_def example_configuration_def example_endpoint_def
      example_vessel_config_def myVessel_objects_def myVessel_static_objects_def
      otherVessels_objects_def leaves_def or_empty_def empty_object_def falsy_string_def
      falsy_number_def DEFAULT_EXPIRY_INTERVAL_def DEFAULT_MY_AIS_CLASS_def)

lemma startReporting_bounded:
  assumes "makePluginConfiguration m c now options = Inr cfg"
  shows "list_all endpoint_bounded (endpoints (fst (startReporting enc cfg inputs)))"
proof -
  have "list_all (\<lambda>ep. statistics ep = initial_statistics now) (endpoints cfg)"
    using assms by (rule makePluginConfiguration_statistics)
  then have "list_all endpoint_bounded (endpoints cfg)"
    by (induction "endpoints cfg") (auto simp: list_all_iff endpoint_bounded_def initial_statistics_def initial_bounded)
  then show ?thesis
    unfolding startReporting_def by (intro foldl_heartbeat_bounded) simp
qed

lemma heartbeat_length:
  "length (endpoints (fst (heartbeat enc st inp))) = length (endpoints (fst st))"
  by (cases st) (simp add: heartbeat_endpoints tick_endpoints_length)

lemma startReporting_length:
  "length (endpoints (fst (startReporting enc cfg inputs))) = length (endpoints cfg)"
proof -
  have "length (endpoints (fst (foldl (heartbeat enc) st inputs))) = length (endpoints (fst st))" for st
    by (induction inputs arbitrary: st) (simp_all add: heartbeat_length)
  then show ?thesis by (simp add: startReporting_def)
qed

text \<open>
  C5. Start from any configuration the normaliser returns and run any number of
  heartbeats on any inputs. For every endpoint and both report types, one more heartbeat
  never lowers \<open>totalReportsTransmitted\<close> or \<open>totalBytesTransmitted\<close>, and in every state
  reached the sum of the hour window of reports is at most \<open>totalReportsTransmitted\<close>.
\<close>

theorem statistics_monotone_and_hour_bounded:
  assumes "makePluginConfiguration selfMMSI selfAisClass now options = Inr cfg"
    and "before = startReporting AisEncode cfg inputs"
    and "after = heartbeat AisEncode before input"
    and "k < length (endpoints cfg)"
    and "s = statistics (endpoints (fst before) ! k)"
    and "s' = statistics (endpoints (fst after) ! k)"
  shows "length (endpoints (fst before)) = length (endpoints cfg)
       \<and> length (endpoints (fst after)) = length (endpoints cfg)
       \<and> totalReportsTransmitted (position s) \<le> totalReportsTransmitted (position s')
       \<and> totalBytesTransmitted (position s) \<le> totalBytesTransmitted (position s')
       \<and> totalReportsTransmitted (static s) \<le> totalReportsTransmitted (static s')
       \<and> totalBytesTransmitted (static s) \<le> totalBytesTransmitted (static s')
       \<and> sum_list (reportsTransmittedInLastHour (position s)) \<le> totalReportsTransmitted (position s)
       \<and> sum_list (reportsTransmittedInLastHour (static s)) \<le> totalReportsTransmitted (static s)"
proof -
  have len: "length (endpoints (fst before)) = length (endpoints cfg)"
    using assms(2) by (simp add: startReporting_length)
  have len': "length (endpoints (fst after)) = length (endpoints cfg)"
    using assms(3) len by (simp add: heartbeat_length)
  have "list_all2 endpoint_le (endpoints (fst before)) (endpoints (fst after))"
    unfolding assms(3) by (rule heartbeat_le)
  then have "endpoint_le (endpoints (fst before) ! k) (endpoints (fst after) ! k)"
    using assms(4) len by (simp add: list_all2_conv_all_nth)
  then have mono: "stats_le (position s) (position s')" "stats_le (static s) (static s')"
    using assms(5,6) by (simp_all add: endpoint_le_def)
  have "list_all endpoint_bounded (endpoints (fst before))"
    unfolding assms(2) using assms(1) by (rule startReporting_bounded)
  then have "endpoint_bounded (endpoints (fst before) ! k)"
    using assms(4) len by (simp add: list_all_length)
  then have bnd: "hour_bounded (position s)" "hour_bounded (static s)"
    using assms(5) by (simp_all add: endpoint_bounded_def)
  from len len' mono bnd show ?thesis
    by (simp add: stats_le_def hour_bounded_def)
qed

theorem statistics_monotone_and_hour_bounded_witness:
  "makePluginConfiguration (Some ''235012345'') None 1000 example_options = Inr example_configuration
   \<and> (0::nat) < length (endpoints example_configuration)
   \<and> sum_list (reportsTransmittedInLastHour (position (statistics
         (endpoints (fst (startReporting example_encoder example_configuration [example_input])) ! 0))))
       \<le> totalReportsTransmitted (position (statistics
         (endpoints (fst (startReporting example_encoder example_configuration [example_input])) ! 0)))
   \<and> totalBytesTransmitted (static (statistics
         (endpoints (fst (startReporting example_encoder example_configuration [example_input])) ! 0)))
       \<le> totalBytesTransmitted (static (statistics
         (endpoints (fst (heartbeat example_encoder
            (startReporting example_encoder example_configuration [example_input]) example_input)) ! 0)))"
proof -
  have k: "(0::nat) < length (endpoints example_configuration)"
    by (simp add: example_configuration_def)
  show ?thesis
    using statistics_monotone_and_hour_bounded [OF example_normalised refl refl k refl refl,
        of example_encoder "[example_input]" example_input] example_normalised k
    by simp
qed

subsection \<open>Rotation of a rolling vector\<close>

lemma updateVector_nonempty:
  "vector \<noteq> [] \<Longrightarrow> updateVector vector N t v =
     (if t \<noteq> 0 \<and> t mod N = 0 then 0 # take (N - 1) (vector[0 := vector ! 0 + v])
      else vector[0 := vector ! 0 + v])"
  by (cases vector) (auto simp: updateVector_def Let_def)

lemma sum_list_bump: "vector \<noteq> [] \<Longrightarrow> sum_list (vector[0 := vector ! 0 + v]) = sum_list vector + (v::nat)"
  by (cases vector) auto

lemma sum_list_butlast: "xs \<noteq> [] \<Longrightarrow> sum_list (butlast xs) + last xs = sum_list (xs::nat list)"
  by (induction xs) auto

text \<open>
  C4, as stated, fails on heartbeat 0: \<open>0 mod 60 = 0\<close>, yet the vector is not rotated; the
  value is added to slot 0 and nothing else happens.
\<close>

theorem updateVector_tick0_counterexample:
  "(0::nat) mod 60 = 0
   \<and> updateVector (replicate 60 0) 60 0 2 = 2 # replicate 59 0
   \<and> updateVector (replicate 60 0) 60 0 2 \<noteq> 0 # take 59 (2 # replicate 59 0)"
  by code_simp

text \<open>
  C4, amended. For a vector of ring size \<open>N\<close> (60 or 24; any \<open>N \<ge> 2\<close>), the update adds the
  value into slot 0, and exactly when the heartbeat is not 0 and \<open>heartbeat mod N = 0\<close> it
  rotates: a zero slot comes first, the oldest slot is dropped and the others follow
  unchanged. The length stays \<open>N\<close>; the sum grows by the value, less the dropped slot on
  a rotation.
\<close>

theorem updateVector_rotation:
  assumes "length vector = N" and "2 \<le> N"
  shows "updateVector vector N t v =
           (if t \<noteq> 0 \<and> t mod N = 0 then 0 # butlast (vector[0 := vector ! 0 + v])
            else vector[0 := vector ! 0 + v])
       \<and> length (updateVector vector N t v) = N
       \<and> (if t \<noteq> 0 \<and> t mod N = 0
          then hd (updateVector vector N t v) = 0
             \<and> tl (updateVector vector N t v) = butlast (vector[0 := vector ! 0 + v])
             \<and> sum_list (updateVector vector N t v) + last vector = sum_list vector + v
          else sum_list (updateVector vector N t v) = sum_list vector + v)"
proof -
  let ?b = "vector[0 := vector ! 0 + v]"
  have ne: "vector \<noteq> []" using assms by auto
  have lb: "length ?b = N" using assms by simp
  have eq: "updateVector vector N t v = (if t \<noteq> 0 \<and> t mod N = 0 then 0 # butlast ?b else ?b)"
    using updateVector_nonempty [OF ne, of N t v] lb by (simp add: butlast_conv_take)
  have last: "last ?b = last vector"
    using assms ne by (simp add: last_list_update)
  have "sum_list (butlast ?b) + last ?b = sum_list vector + v"
    using sum_list_butlast [of ?b] sum_list_bump [OF ne, of v] ne by simp
  with eq lb last assms show ?thesis
    by (simp add: sum_list_bump [OF ne])
qed

theorem updateVector_rotation_witness:
  "length [1, 2, 3 :: nat] = 3 \<and> (2::nat) \<le> 3
   \<and> updateVector [1, 2, 3] 3 6 5 = [0, 6, 2]
   \<and> updateVector [1, 2, 3] 3 0 5 = [6, 2, 3]
   \<and> updateVector [1, 2, 3] 3 4 5 = [6, 2, 3]"
  using updateVector_rotation [of "[1, 2, 3]" 3 6 5] updateVector_rotation [of "[1, 2, 3]" 3 0 5]
    updateVector_rotation [of "[1, 2, 3]" 3 4 5]
  by simp

text \<open>
  The hour window fed with 2 reports on every heartbeat: the sum is 118 after 59
  heartbeats, and the first rotation happens on heartbeat 60.
\<close>

lemma hour_window_example:
  "sum_list (foldl (\<lambda>vector heartbeat. updateVector vector 60 heartbeat 2) (replicate 60 0) [0..<59]) = 118
   \<and> foldl (\<lambda>vector heartbeat. updateVector vector 60 heartbeat 2) (replicate 60 0) [0..<60]
       = 120 # replicate 59 0
   \<and> foldl (\<lambda>vector heartbeat. updateVector vector 60 heartbeat 2) (replicate 60 0) [0..<61]
       = 0 # 122 # replicate 58 0"
  by code_simp

subsection \<open>One vessel in a generator\<close>

lemma count_report_bucket:
  "class_filter cfg reportSelf reportOthers v \<Longrightarrow>
   count_report cfg reportSelf v n rs = add_to_bucket (mmsi v = myMMSI cfg) 1 n rs"
  by (auto simp: class_filter_def count_report_def add_to_bucket_def)

lemma reportPosition_vessel_cases:
  "reportPosition_vessel cfg enc ep rS (sock, rs) v =
     (case enc v (if aisClass_of cfg v = ''A'' then 1 else 18) None of
        None \<Rightarrow> (sock, rs)
      | Some m \<Rightarrow> (sock @ datagrams ep [m], count_report cfg rS v (length m + 1) rs))"
  by (simp add: reportPosition_vessel_def sendReportMsg_def datagrams_def split: option.splits)

lemma reportStatic_vessel_cases:
  "reportStatic_vessel cfg enc ep rS (sock, rs) v =
     (if aisClass_of cfg v = ''A'' then
        (case enc v 5 None of
           None \<Rightarrow> (sock, rs)
         | Some m \<Rightarrow> (sock @ datagrams ep [m], count_report cfg rS v (length m + 1) rs))
      else if aisClass_of cfg v = ''B'' then
        (case enc v 24 (Some 0) of
           None \<Rightarrow> (sock, rs)
         | Some a \<Rightarrow> (case enc v 24 (Some 1) of
             None \<Rightarrow> (sock, rs)
           | Some b \<Rightarrow> (sock @ datagrams ep [a, b], count_report cfg rS v (length a + 1 + (length b + 1)) rs)))
      else (sock, rs))"
  by (simp add: reportStatic_vessel_def sendReportMsg_def datagrams_def split: option.splits)

text \<open>
  C3. For a class B vessel in the static generator: when part 0 or part 1 does not
  encode, nothing is sent for the vessel and the report statistics stay as they were;
  when both encode, both sentences are sent, part 0 first, and one report is counted.
\<close>

theorem classB_static_all_or_nothing:
  assumes "aisClass_of cfg v = ''B''"
  shows "((enc v 24 (Some 0) = None \<or> enc v 24 (Some 1) = None)
            \<longrightarrow> reportStatic_vessel cfg enc ep rS (sock, rs) v = (sock, rs))
       \<and> (\<forall>a b. enc v 24 (Some 0) = Some a \<and> enc v 24 (Some 1) = Some b
            \<longrightarrow> reportStatic_vessel cfg enc ep rS (sock, rs) v
                  = (sock @ [(a @ [CHR 0x0A], port ep, ipAddress ep), (b @ [CHR 0x0A], port ep, ipAddress ep)],
                     count_report cfg rS v (length a + 1 + (length b + 1)) rs))"
  using assms by (auto simp: reportStatic_vessel_cases datagrams_def split: option.splits)

theorem classB_static_all_or_nothing_witness:
  "aisClass_of example_configuration broken_vessel = ''B''
   \<and> example_encoder broken_vessel 24 (Some 0) = Some ''!AIVDM''
   \<and> example_encoder broken_vessel 24 (Some 1) = None
   \<and> reportStatic_vessel example_configuration example_encoder example_endpoint False ([], no_reports) broken_vessel
       = ([], no_reports)
   \<and> aisClass_of example_configuration own_vessel = ''B''
   \<and> example_encoder own_vessel 24 (Some 0) = Some ''!AIVDM''
   \<and> example_encoder own_vessel 24 (Some 1) = Some ''!AIVDM,B''
   \<and> reportStatic_vessel example_configuration example_encoder example_endpoint True ([], no_reports) own_vessel
       = ([(''!AIVDM'' @ [CHR 0x0A], 12345, ''192.168.1.12''), (''!AIVDM,B'' @ [CHR 0x0A], 12345, ''192.168.1.12'')],
          \<lparr> myVessel_count = 1, myVessel_bytes = 16, otherVessels_count = 0, otherVessels_bytes = 0 \<rparr>)"
proof -
  have b: "aisClass_of example_configuration broken_vessel = ''B''"
    by (simp add: aisClass_of_def example_configuration_def broken_vessel_def)
  have e: "example_encoder broken_vessel 24 (Some 0) = Some ''!AIVDM''"
          "example_encoder broken_vessel 24 (Some 1) = None"
    by (simp_all add: example_encoder_def broken_vessel_def)
  have p: "port example_endpoint = 12345" "ipAddress example_endpoint = ''192.168.1.12''"
    by (simp_all add: example_endpoint_def)
  have b': "aisClass_of example_configuration own_vessel = ''B''"
    by (simp add: aisClass_of_def example_configuration_def own_vessel_def)
  have e': "example_encoder own_vessel 24 (Some 0) = Some ''!AIVDM''"
           "example_encoder own_vessel 24 (Some 1) = Some ''!AIVDM,B''"
    by (simp_all add: example_encoder_def own_vessel_def)
  show ?thesis
    using classB_static_all_or_nothing [OF b, of example_encoder example_endpoint False "[]" no_reports]
      classB_static_all_or_nothing [OF b', of example_encoder example_endpoint True "[]" no_reports]
      b e b' e' p
    by (simp add: count_report_def no_reports_def example_configuration_def own_vessel_def)
qed

lemma one_report_position:
  assumes "class_filter cfg rS rO v"
  shows "\<exists>msgs. length msgs \<le> 1 \<and> reportPosition_vessel cfg enc ep rS (sock, rs) v =
           (sock @ datagrams ep msgs,
            if msgs = [] then rs
            else add_to_bucket (mmsi v = myMMSI cfg) 1 (sum_list (map (\<lambda>m. length m + 1) msgs)) rs)"
proof (cases "enc v (if aisClass_of cfg v = ''A'' then 1 else 18) None")
  case None
  then have "reportPosition_vessel cfg enc ep rS (sock, rs) v = (sock @ datagrams ep [], rs)"
    by (simp add: reportPosition_vessel_cases datagrams_def)
  then show ?thesis by (intro exI [of _ "[]"]) simp
next
  case (Some m)
  then have "reportPosition_vessel cfg enc ep rS (sock, rs) v
      = (sock @ datagrams ep [m], add_to_bucket (mmsi v = myMMSI cfg) 1 (length m + 1) rs)"
    by (simp add: reportPosition_vessel_cases count_report_bucket [OF assms])
  then show ?thesis by (intro exI [of _ "[m]"]) simp
qed

lemma one_report_static:
  assumes "class_filter cfg rS rO v"
  shows "\<exists>msgs. length msgs \<le> 2 \<and> reportStatic_vessel cfg enc ep rS (sock, rs) v =
           (sock @ datagrams ep msgs,
            if msgs = [] then rs
            else add_to_bucket (mmsi v = myMMSI cfg) 1 (sum_list (map (\<lambda>m. length m + 1) msgs)) rs)"
proof -
  note bucket = count_report_bucket [OF assms]
  show ?thesis
  proof (cases "aisClass_of cfg v = ''A''")
    case True
    show ?thesis
    proof (cases "enc v 5 None")
      case None
      with True show ?thesis
        by (intro exI [of _ "[]"]) (simp add: reportStatic_vessel_cases datagrams_def)
    next
      case (Some m)
      with True show ?thesis
        by (intro exI [of _ "[m]"]) (simp add: reportStatic_vessel_cases bucket)
    qed
  next
    case notA: False
    show ?thesis
    proof (cases "aisClass_of cfg v = ''B''")
      case False
      with notA show ?thesis
        by (intro exI [of _ "[]"]) (simp add: reportStatic_vessel_cases datagrams_def)
    next
      case True
      show ?thesis
      proof (cases "enc v 24 (Some 0)")
        case None
        with True show ?thesis
          by (intro exI [of _ "[]"]) (simp add: reportStatic_vessel_cases datagrams_def)
      next
        case a: (Some a)
        show ?thesis
        proof (cases "enc v 24 (Some 1)")
          case None
          with True a show ?thesis
            by (intro exI [of _ "[]"]) (simp add: reportStatic_vessel_cases datagrams_def)
        next
          case (Some b)
          with True a show ?thesis
            by (intro exI [of _ "[a, b]"]) (simp add: reportStatic_vessel_cases bucket)
        qed
      qed
    qed
  qed
qed

text \<open>
  C6. For a vessel that passed the class filter, in either generator: the sentences sent
  for it go to the socket in order, and when there is at least one, the bucket of the
  vessel's class gains exactly one report and, for each sentence, its length plus one
  byte; the other bucket is untouched. A class B static report of two sentences adds 1
  to the count and both lengths plus 2 to the bytes.
\<close>

theorem one_report_per_vessel:
  assumes "class_filter cfg reportSelf reportOthers vessel"
  shows "(\<exists>msgs. length msgs \<le> 1
            \<and> reportPosition_vessel cfg AisEncode endpoint reportSelf (socket, rs) vessel =
                (socket @ datagrams endpoint msgs,
                 if msgs = [] then rs
                 else add_to_bucket (mmsi vessel = myMMSI cfg) 1 (sum_list (map (\<lambda>m. length m + 1) msgs)) rs))
       \<and> (\<exists>msgs. length msgs \<le> 2
            \<and> reportStatic_vessel cfg AisEncode endpoint reportSelf (socket, rs) vessel =
                (socket @ datagrams endpoint msgs,
                 if msgs = [] then rs
                 else add_to_bucket (mmsi vessel = myMMSI cfg) 1 (sum_list (map (\<lambda>m. length m + 1) msgs)) rs))
       \<and> (aisClass_of cfg vessel = ''B'' \<and> AisEncode vessel 24 (Some 0) = Some a
            \<and> AisEncode vessel 24 (Some 1) = Some b
          \<longrightarrow> reportStatic_vessel cfg AisEncode endpoint reportSelf (socket, rs) vessel =
                (socket @ datagrams endpoint [a, b],
                 add_to_bucket (mmsi vessel = myMMSI cfg) 1 (length a + length b + 2) rs))"
proof -
  have "aisClass_of cfg vessel = ''B'' \<Longrightarrow> AisEncode vessel 24 (Some 0) = Some a \<Longrightarrow>
        AisEncode vessel 24 (Some 1) = Some b \<Longrightarrow>
        reportStatic_vessel cfg AisEncode endpoint reportSelf (socket, rs) vessel =
          (socket @ datagrams endpoint [a, b],
           add_to_bucket (mmsi vessel = myMMSI cfg) 1 (length a + length b + 2) rs)"
    by (simp add: reportStatic_vessel_cases count_report_bucket [OF assms])
  with one_report_position [OF assms] one_report_static [OF assms] show ?thesis
    by blast
qed

theorem one_report_per_vessel_witness:
  "class_filter example_configuration True False own_vessel
   \<and> reportStatic_vessel example_configuration example_encoder example_endpoint True ([], no_reports) own_vessel =
       ([(''!AIVDM'' @ [CHR 0x0A], 12345, ''192.168.1.12''), (''!AIVDM,B'' @ [CHR 0x0A], 12345, ''192.168.1.12'')],
        \<lparr> myVessel_count = 1, myVessel_bytes = 16, otherVessels_count = 0, otherVessels_bytes = 0 \<rparr>)"
proof -
  have cf: "class_filter example_configuration True False own_vessel"
    by (simp add: class_filter_def example_configuration_def own_vessel_def)
  have b: "aisClass_of example_configuration own_vessel = ''B''"
    by (simp add: aisClass_of_def example_configuration_def own_vessel_def)
  have e: "example_encoder own_vessel 24 (Some 0) = Some ''!AIVDM''"
          "example_encoder own_vessel 24 (Some 1) = Some ''!AIVDM,B''"
    by (simp_all add: example_encoder_def own_vessel_def)
  show ?thesis
    using one_report_per_vessel [OF cf, of example_encoder example_endpoint "[]" no_reports "''!AIVDM''" "''!AIVDM,B''"] cf b e
    by (simp add: datagrams_def add_to_bucket_def no_reports_def example_configuration_def
        own_vessel_def example_endpoint_def)
qed

subsection \<open>Eligibility\<close>

lemma generators_filter_eligible:
  "reportPosition cfg enc vs now sock ep rS rO =
     foldl (reportPosition_vessel cfg enc ep rS) (sock, no_reports) (filter (eligible cfg now ep rS rO) vs)"
  "reportStatic cfg enc vs now sock ep rS rO =
     foldl (reportStatic_vessel cfg enc ep rS) (sock, no_reports) (filter (eligible cfg now ep rS rO) vs)"
  by (simp_all add: reportPosition_def reportStatic_def eligible_def conj_commute cong: filter_cong)

text \<open>
  C2, as stated, fails at the boundary: a vessel of another ship whose fix age equals the
  expiry interval (15 minutes, and also 0) is not eligible.
\<close>

theorem eligibility_boundary_counterexample:
  "mmsi boundary_vessel \<noteq> myMMSI example_configuration
   \<and> position_timestamp boundary_vessel = Some 100000
   \<and> int 1000000 - int 100000 = int (expiryInterval (otherVessels example_endpoint)) * 60000
   \<and> \<not> eligible example_configuration 1000000 example_endpoint False True boundary_vessel
   \<and> mmsi fresh_vessel \<noteq> myMMSI example_configuration
   \<and> position_timestamp fresh_vessel = Some 1000000
   \<and> int 1000000 - int 1000000 = int (expiryInterval (otherVessels zero_expiry_endpoint))
   \<and> \<not> eligible example_configuration 1000000 zero_expiry_endpoint False True fresh_vessel"
  by (simp add: eligible_def class_filter_def expiry_filter_def boundary_vessel_def fresh_vessel_def
      example_configuration_def example_endpoint_def example_vessel_config_def zero_expiry_endpoint_def)

text \<open>
  C2, amended. In a generator call for other vessels alone, a vessel is eligible exactly
  when it is not the own vessel, has a fix timestamp, and the age of the fix is strictly
  less than the expiry interval of other vessels (in minutes). In a call for the own
  vessel alone, an eligible vessel is the own vessel, has a fix timestamp, and the age of
  its fix is strictly less than the expiry interval of the own vessel. In every call an
  eligible vessel has a fix timestamp and belongs to a class that is being reported. A
  fix whose age equals the expiry interval is not eligible.
\<close>

theorem eligibility_strict_expiry:
  "(eligible cfg now ep False True v \<longleftrightarrow>
      mmsi v \<noteq> myMMSI cfg
      \<and> (\<exists>ts. position_timestamp v = Some ts
             \<and> int now - int ts < int (expiryInterval (otherVessels ep)) * 60000))
   \<and> (eligible cfg now ep True False v \<longrightarrow>
      mmsi v = myMMSI cfg
      \<and> (\<exists>ts. position_timestamp v = Some ts
             \<and> int now - int ts < int (expiryInterval (myVessel ep)) * 60000))
   \<and> (eligible cfg now ep reportSelf reportOthers v \<longrightarrow>
      position_timestamp v \<noteq> None
      \<and> ((reportSelf \<and> mmsi v = myMMSI cfg) \<or> (reportOthers \<and> mmsi v \<noteq> myMMSI cfg)))
   \<and> (position_timestamp v = Some ts
        \<and> int now - int ts = int (expiryInterval (otherVessels ep)) * 60000
      \<longrightarrow> \<not> eligible cfg now ep False True v)
   \<and> (position_timestamp v = Some ts
        \<and> int now - int ts = int (expiryInterval (myVessel ep)) * 60000
      \<longrightarrow> \<not> eligible cfg now ep True False v)"
proof -
  have le: "int (expiryInterval (myVessel ep)) * 6000 \<le> int (expiryInterval (myVessel ep)) * 60000"
    by simp
  show ?thesis
    using le
    by (auto simp: eligible_def class_filter_def expiry_filter_def split: option.splits)
qed

theorem eligibility_strict_expiry_witness:
  "eligible example_configuration 1000000 example_endpoint False True other_vessel
   \<and> mmsi other_vessel \<noteq> myMMSI example_configuration
   \<and> position_timestamp other_vessel = Some 980000
   \<and> int 1000000 - int 980000 < int (expiryInterval (otherVessels example_endpoint)) * 60000
   \<and> eligible example_configuration 1000000 example_endpoint True False own_vessel
   \<and> mmsi own_vessel = myMMSI example_configuration
   \<and> position_timestamp boundary_vessel = Some 100000
   \<and> int 1000000 - int 100000 = int (expiryInterval (otherVessels example_endpoint)) * 60000
   \<and> \<not> eligible example_configuration 1000000 example_endpoint False True boundary_vessel
   \<and> position_timestamp stale_own_vessel = Some 100000
   \<and> int 1000000 - int 100000 = int (expiryInterval (myVessel example_endpoint)) * 60000
   \<and> \<not> eligible example_configuration 1000000 example_endpoint True False stale_own_vessel"
proof -
  have a: "mmsi other_vessel \<noteq> myMMSI example_configuration"
          "position_timestamp other_vessel = Some 980000"
          "int 1000000 - int 980000 < int (expiryInterval (otherVessels example_endpoint)) * 60000"
    by (simp_all add: other_vessel_def example_configuration_def example_endpoint_def example_vessel_config_def)
  have b: "eligible example_configuration 1000000 example_endpoint True False own_vessel"
    by (simp add: eligible_def class_filter_def expiry_filter_def own_vessel_def
        example_configuration_def example_endpoint_def example_vessel_config_def)
  have c: "position_timestamp boundary_vessel = Some 100000"
          "int 1000000 - int 100000 = int (expiryInterval (otherVessels example_endpoint)) * 60000"
    by (simp_all add: boundary_vessel_def example_endpoint_def example_vessel_config_def)
  have d: "position_timestamp stale_own_vessel = Some 100000"
          "int 1000000 - int 100000 = int (expiryInterval (myVessel example_endpoint)) * 60000"
    by (simp_all add: stale_own_vessel_def example_endpoint_def example_vessel_config_def)
  show ?thesis
    using eligibility_strict_expiry [of example_configuration 1000000 example_endpoint other_vessel True False 980000]
      eligibility_strict_expiry [of example_configuration 1000000 example_endpoint own_vessel True False 990000]
      eligibility_strict_expiry [of example_configuration 1000000 example_endpoint boundary_vessel False True 100000]
      eligibility_strict_expiry [of example_configuration 1000000 example_endpoint stale_own_vessel True False 100000]
      a b c d
    by simp
qed

subsection \<open>Resolution of the options\<close>

lemmas normalise_defs = makePluginConfiguration_def makeEndpoint_def then_do_def
  myVessel_objects_def myVessel_static_objects_def otherVessels_objects_def leaves_def
  or_empty_def empty_object_def falsy_string_def falsy_number_def
  DEFAULT_EXPIRY_INTERVAL_def DEFAULT_MY_AIS_CLASS_def DEFAULT_POSITION_UPDATE_INTERVAL_def
  DEFAULT_STATIC_DATA_UPDATE_INTERVAL_def

lemma getOption_order:
  "getOption [Some a, Some b, Some c, Some d] p fallback =
     Inr (case p a of Some v \<Rightarrow> v | None \<Rightarrow>
            (case p b of Some v \<Rightarrow> v | None \<Rightarrow>
               (case p c of Some v \<Rightarrow> v | None \<Rightarrow>
                  (case p d of Some v \<Rightarrow> v | None \<Rightarrow> fallback))))"
  by (simp split: option.splits)

lemma getOptionArray_order:
  "getOptionArray [Some a, Some b, Some c, Some d] p fallback =
     Inr (case p a of Some v \<Rightarrow> as_array v | None \<Rightarrow>
            (case p b of Some v \<Rightarrow> as_array v | None \<Rightarrow>
               (case p c of Some v \<Rightarrow> as_array v | None \<Rightarrow>
                  (case p d of Some v \<Rightarrow> as_array v | None \<Rightarrow> fallback))))"
  by (simp add: as_array_def split: option.splits interval_option.splits)

lemma getOptionArray_hole:
  "getOptionArray [Some a, Some b, Some c, None, Some d] p fallback =
     (case p a of Some v \<Rightarrow> Inr (as_array v) | None \<Rightarrow>
        (case p b of Some v \<Rightarrow> Inr (as_array v) | None \<Rightarrow>
           (case p c of Some v \<Rightarrow> Inr (as_array v) | None \<Rightarrow> Inl TypeError)))"
  by (simp add: as_array_def split: option.splits interval_option.splits)

text \<open>
  C7 fails for the static intervals of the own vessel. With a global static interval of
  10 and an endpoint that sets nothing, the claim expects \<open>[10]\<close>, as the other vessels
  get; the object list of the own vessel has a hole before the global options, and
  normalisation throws a TypeError. The same happens when nothing is set at all, where
  the claim expects the default.
\<close>

theorem myVessel_static_global_value_throws:
  "opt_staticUpdateInterval global_static_options = Some (Scalar 10)
   \<and> getOptionArray (otherVessels_objects global_static_options plain_endpoint_options)
        opt_staticUpdateInterval [DEFAULT_STATIC_DATA_UPDATE_INTERVAL] = Inr [10]
   \<and> getOptionArray (myVessel_static_objects global_static_options plain_endpoint_options)
        opt_staticUpdateInterval [DEFAULT_STATIC_DATA_UPDATE_INTERVAL] = Inl TypeError
   \<and> makePluginConfiguration (Some ''235012345'') None 1000 global_static_options = Inl TypeError
   \<and> makePluginConfiguration (Some ''235012345'') None 1000 default_options = Inl TypeError"
  by (simp add: normalise_defs global_static_options_def default_options_def plain_endpoint_options_def)

subsection \<open>An index out of range\<close>

text \<open>
  C8, as stated, fails: with static intervals \<open>[15]\<close> and index 1 the resolved interval is
  0, not the last element 15, and the static report that clamping would send on
  heartbeat 15 is not due.
\<close>

theorem index_out_of_range_counterexample:
  "staticUpdateIntervals (myVessel example_endpoint) = [15]
   \<and> mvIDX (getSelfPath example_input) example_endpoint = 1
   \<and> mvSUI (getSelfPath example_input) example_endpoint = 0
   \<and> mvSUI (getSelfPath example_input) example_endpoint \<noteq> last (staticUpdateIntervals (myVessel example_endpoint))
   \<and> report_due 15 (last (staticUpdateIntervals (myVessel example_endpoint)))
   \<and> \<not> report_due 15 (mvSUI (getSelfPath example_input) example_endpoint)"
  by (simp add: mvSUI_def mvIDX_def resolve_index_def get_interval_def report_due_def
      example_input_def example_endpoint_def example_vessel_config_def example_selfPath_def
      falsy_string_def)

text \<open>
  C8, amended. When the resolved index is out of range for the interval sequence, the
  resolved interval is the default 0 of the lookup, so the report type does not fire for
  that class on that heartbeat; an index in range selects the element at the index.
\<close>

theorem index_out_of_range_never_fires:
  "(idx < 0 \<or> int (length intervals) \<le> idx \<longrightarrow>
      get_interval intervals idx = 0
      \<and> \<not> report_due t (get_interval intervals idx)
      \<and> \<not> report_flag t (get_interval intervals idx))
   \<and> (0 \<le> idx \<and> idx < int (length intervals) \<longrightarrow> get_interval intervals idx = intervals ! nat idx)
   \<and> mvPUI selfPath endpoint = get_interval (positionUpdateIntervals (myVessel endpoint)) (mvIDX selfPath endpoint)
   \<and> mvSUI selfPath endpoint = get_interval (staticUpdateIntervals (myVessel endpoint)) (mvIDX selfPath endpoint)
   \<and> ovPUI selfPath endpoint = get_interval (positionUpdateIntervals (otherVessels endpoint)) (ovIDX selfPath endpoint)
   \<and> ovSUI selfPath endpoint = get_interval (staticUpdateIntervals (otherVessels endpoint)) (ovIDX selfPath endpoint)"
  by (auto simp: get_interval_def report_due_def report_flag_def mvPUI_def mvSUI_def ovPUI_def ovSUI_def)

theorem index_out_of_range_never_fires_witness:
  "int (length [15::nat]) \<le> 1 \<and> get_interval [15] 1 = 0 \<and> \<not> report_due 15 (get_interval [15] 1)
   \<and> (0::int) \<le> 1 \<and> (1::int) < int (length [5, 1 :: nat]) \<and> get_interval [5, 1] 1 = [5, 1] ! nat 1"
proof -
  have len: "int (length [15::nat]) \<le> 1"
    by simp
  then have out: "(1::int) < 0 \<or> int (length [15::nat]) \<le> 1"
    by (rule disjI2)
  have inside: "(0::int) \<le> 1 \<and> (1::int) < int (length [5, 1 :: nat])"
    by simp
  note a = index_out_of_range_never_fires [of 1 "[15]" 15 example_selfPath example_endpoint,
      THEN conjunct1, rule_format, OF out]
  note b = index_out_of_range_never_fires [of 1 "[5, 1]" 15 example_selfPath example_endpoint,
      THEN conjunct2, THEN conjunct1, rule_format, OF inside]
  from a b len inside show ?thesis
    by blast
qed

subsection \<open>Static and position intervals\<close>

text \<open>
  C9, as stated, fails: an endpoint configured with a position interval of 10 and a
  static interval of 5 is normalised to exactly these values, for both classes.
\<close>

theorem static_faster_than_position_counterexample:
  "makePluginConfiguration (Some ''235012345'') None 1000 fast_static_options
     = Inr \<lparr> myMMSI = Some ''235012345'', myAisClass = ''B'', endpoints = [fast_static_endpoint] \<rparr>
   \<and> positionUpdateIntervals (otherVessels fast_static_endpoint) ! 0 = 10
   \<and> staticUpdateIntervals (otherVessels fast_static_endpoint) ! 0 = 5
   \<and> positionUpdateIntervals (myVessel fast_static_endpoint) ! 0 = 10
   \<and> staticUpdateIntervals (myVessel fast_static_endpoint) ! 0 = 5"
  by (simp add: normalise_defs fast_static_options_def fast_static_endpoint_options_def
      fast_static_endpoint_def fast_static_vessel_config_def)

lemma or_empty_leaf:
  "opt_positionUpdateInterval (or_empty obj) = Option.bind obj opt_positionUpdateInterval"
  "opt_staticUpdateInterval (or_empty obj) = Option.bind obj opt_staticUpdateInterval"
  by (cases obj; simp add: or_empty_def empty_object_def)+

lemma leaves_leaf:
  "opt_positionUpdateInterval (leaves obj) = opt_positionUpdateInterval obj"
  "opt_staticUpdateInterval (leaves obj) = opt_staticUpdateInterval obj"
  by (simp_all add: leaves_def)

lemma makeEndpoint_intervals:
  assumes "makeEndpoint now options option = Inr endpoint"
  shows "getOptionArray (myVessel_objects options option) opt_positionUpdateInterval
            [DEFAULT_POSITION_UPDATE_INTERVAL] = Inr (positionUpdateIntervals (myVessel endpoint))"
    and "getOptionArray (myVessel_static_objects options option) opt_staticUpdateInterval
            [DEFAULT_STATIC_DATA_UPDATE_INTERVAL] = Inr (staticUpdateIntervals (myVessel endpoint))"
    and "getOptionArray (otherVessels_objects options option) opt_positionUpdateInterval
            [DEFAULT_POSITION_UPDATE_INTERVAL] = Inr (positionUpdateIntervals (otherVessels endpoint))"
    and "getOptionArray (otherVessels_objects options option) opt_staticUpdateInterval
            [DEFAULT_STATIC_DATA_UPDATE_INTERVAL] = Inr (staticUpdateIntervals (otherVessels endpoint))"
  using assms by (auto simp: makeEndpoint_def then_do_def split: if_splits sum.splits)

text \<open>
  C9, amended. In every endpoint the normaliser returns, the position and the static
  interval sequence of each class are the configured ones, unchanged: the first value set
  in the order class object of the endpoint, endpoint, global class object, global
  options, and otherwise the default \<open>[5]\<close> or \<open>[15]\<close>, a scalar as a one-element sequence.
  Each sequence is resolved on its own and the normaliser does not compare them: an
  endpoint that sets both intervals itself gets exactly these two for other vessels,
  whatever they are.
\<close>

theorem normalised_intervals_as_configured:
  assumes "makeEndpoint now options option = Inr endpoint"
  shows "positionUpdateIntervals (myVessel endpoint) =
           (case Option.bind (opt_myVessel option) opt_positionUpdateInterval of Some v \<Rightarrow> as_array v | None \<Rightarrow>
              (case opt_positionUpdateInterval option of Some v \<Rightarrow> as_array v | None \<Rightarrow>
                 (case Option.bind (opt_myVessel options) opt_positionUpdateInterval of Some v \<Rightarrow> as_array v | None \<Rightarrow>
                    (case opt_positionUpdateInterval options of Some v \<Rightarrow> as_array v | None \<Rightarrow> [5]))))
       \<and> staticUpdateIntervals (myVessel endpoint) =
           (case Option.bind (opt_myVessel option) opt_staticUpdateInterval of Some v \<Rightarrow> as_array v | None \<Rightarrow>
              (case opt_staticUpdateInterval option of Some v \<Rightarrow> as_array v | None \<Rightarrow>
                 (case Option.bind (opt_myVessel options) opt_staticUpdateInterval of Some v \<Rightarrow> as_array v | None \<Rightarrow>
                    (case opt_staticUpdateInterval options of Some v \<Rightarrow> as_array v | None \<Rightarrow> [15]))))
       \<and> positionUpdateIntervals (otherVessels endpoint) =
           (case Option.bind (opt_otherVessels option) opt_positionUpdateInterval of Some v \<Rightarrow> as_array v | None \<Rightarrow>
              (case opt_positionUpdateInterval option of Some v \<Rightarrow> as_array v | None \<Rightarrow>
                 (case Option.bind (opt_otherVessels options) opt_positionUpdateInterval of Some v \<Rightarrow> as_array v | None \<Rightarrow>
                    (case opt_positionUpdateInterval options of Some v \<Rightarrow> as_array v | None \<Rightarrow> [5]))))
       \<and> staticUpdateIntervals (otherVessels endpoint) =
           (case Option.bind (opt_otherVessels option) opt_staticUpdateInterval of Some v \<Rightarrow> as_array v | None \<Rightarrow>
              (case opt_staticUpdateInterval option of Some v \<Rightarrow> as_array v | None \<Rightarrow>
                 (case Option.bind (opt_otherVessels options) opt_staticUpdateInterval of Some v \<Rightarrow> as_array v | None \<Rightarrow>
                    (case opt_staticUpdateInterval options of Some v \<Rightarrow> as_array v | None \<Rightarrow> [15]))))
       \<and> as_array (Scalar n) = [n] \<and> as_array (Sequence ns) = ns
       \<and> (opt_otherVessels option = None \<and> opt_positionUpdateInterval option = Some p
            \<and> opt_staticUpdateInterval option = Some s
          \<longrightarrow> positionUpdateIntervals (otherVessels endpoint) = as_array p
              \<and> staticUpdateIntervals (otherVessels endpoint) = as_array s)"
proof -
  note r = makeEndpoint_intervals [OF assms]
  have mvP: "positionUpdateIntervals (myVessel endpoint) =
           (case Option.bind (opt_myVessel option) opt_positionUpdateInterval of Some v \<Rightarrow> as_array v | None \<Rightarrow>
              (case opt_positionUpdateInterval option of Some v \<Rightarrow> as_array v | None \<Rightarrow>
                 (case Option.bind (opt_myVessel options) opt_positionUpdateInterval of Some v \<Rightarrow> as_array v | None \<Rightarrow>
                    (case opt_positionUpdateInterval options of Some v \<Rightarrow> as_array v | None \<Rightarrow> [5]))))"
    using r(1) unfolding myVessel_objects_def getOptionArray_order
    by (simp add: or_empty_leaf leaves_leaf DEFAULT_POSITION_UPDATE_INTERVAL_def cong: option.case_cong)
  have mvS: "staticUpdateIntervals (myVessel endpoint) =
           (case Option.bind (opt_myVessel option) opt_staticUpdateInterval of Some v \<Rightarrow> as_array v | None \<Rightarrow>
              (case opt_staticUpdateInterval option of Some v \<Rightarrow> as_array v | None \<Rightarrow>
                 (case Option.bind (opt_myVessel options) opt_staticUpdateInterval of Some v \<Rightarrow> as_array v | None \<Rightarrow>
                    (case opt_staticUpdateInterval options of Some v \<Rightarrow> as_array v | None \<Rightarrow> [15]))))"
    using r(2) unfolding myVessel_static_objects_def getOptionArray_hole
    by (auto simp: or_empty_leaf leaves_leaf split: option.splits)
  have ovP: "positionUpdateIntervals (otherVessels endpoint) =
           (case Option.bind (opt_otherVessels option) opt_positionUpdateInterval of Some v \<Rightarrow> as_array v | None \<Rightarrow>
              (case opt_positionUpdateInterval option of Some v \<Rightarrow> as_array v | None \<Rightarrow>
                 (case Option.bind (opt_otherVessels options) opt_positionUpdateInterval of Some v \<Rightarrow> as_array v | None \<Rightarrow>
                    (case opt_positionUpdateInterval options of Some v \<Rightarrow> as_array v | None \<Rightarrow> [5]))))"
    using r(3) unfolding otherVessels_objects_def getOptionArray_order
    by (simp add: or_empty_leaf leaves_leaf DEFAULT_POSITION_UPDATE_INTERVAL_def cong: option.case_cong)
  have ovS: "staticUpdateIntervals (otherVessels endpoint) =
           (case Option.bind (opt_otherVessels option) opt_staticUpdateInterval of Some v \<Rightarrow> as_array v | None \<Rightarrow>
              (case opt_staticUpdateInterval option of Some v \<Rightarrow> as_array v | None \<Rightarrow>
                 (case Option.bind (opt_otherVessels options) opt_staticUpdateInterval of Some v \<Rightarrow> as_array v | None \<Rightarrow>
                    (case opt_staticUpdateInterval options of Some v \<Rightarrow> as_array v | None \<Rightarrow> [15]))))"
    using r(4) unfolding otherVessels_objects_def getOptionArray_order
    by (simp add: or_empty_leaf leaves_leaf DEFAULT_STATIC_DATA_UPDATE_INTERVAL_def cong: option.case_cong)
  have arr: "as_array (Scalar n) = [n] \<and> as_array (Sequence ns) = ns"
    by (simp add: as_array_def)
  have free: "opt_otherVessels option = None \<and> opt_positionUpdateInterval option = Some p
            \<and> opt_staticUpdateInterval option = Some s
          \<longrightarrow> positionUpdateIntervals (otherVessels endpoint) = as_array p
              \<and> staticUpdateIntervals (otherVessels endpoint) = as_array s"
    unfolding ovP ovS by simp
  show ?thesis
    using mvP mvS ovP ovS arr free by (intro conjI) (fast+)
qed

theorem normalised_intervals_as_configured_witness:
  "makeEndpoint 1000 fast_static_options fast_static_endpoint_options = Inr fast_static_endpoint
   \<and> opt_otherVessels fast_static_endpoint_options = None
   \<and> opt_positionUpdateInterval fast_static_endpoint_options = Some (Scalar 10)
   \<and> opt_staticUpdateInterval fast_static_endpoint_options = Some (Scalar 5)
   \<and> positionUpdateIntervals (otherVessels fast_static_endpoint) = [10]
   \<and> staticUpdateIntervals (otherVessels fast_static_endpoint) = [5]
   \<and> makeEndpoint 1000 default_options own_static_endpoint_options = Inr own_static_endpoint
   \<and> positionUpdateIntervals (otherVessels own_static_endpoint) = [5]
   \<and> staticUpdateIntervals (otherVessels own_static_endpoint) = [15]
   \<and> positionUpdateIntervals (myVessel own_static_endpoint) = [5]
   \<and> staticUpdateIntervals (myVessel own_static_endpoint) = [30]"
proof -
  have n: "makeEndpoint 1000 fast_static_options fast_static_endpoint_options = Inr fast_static_endpoint"
    by (simp add: normalise_defs fast_static_options_def fast_static_endpoint_options_def
        fast_static_endpoint_def fast_static_vessel_config_def)
  have d: "makeEndpoint 1000 default_options own_static_endpoint_options = Inr own_static_endpoint"
    by (simp add: normalise_defs default_options_def own_static_endpoint_options_def
        plain_endpoint_options_def own_static_endpoint_def)
  have set: "opt_otherVessels fast_static_endpoint_options = None"
            "opt_positionUpdateInterval fast_static_endpoint_options = Some (Scalar 10)"
            "opt_staticUpdateInterval fast_static_endpoint_options = Some (Scalar 5)"
    by (simp_all add: fast_static_endpoint_options_def)
  have unset: "opt_otherVessels own_static_endpoint_options = None"
              "opt_positionUpdateInterval own_static_endpoint_options = None"
              "opt_staticUpdateInterval own_static_endpoint_options = None"
              "opt_myVessel own_static_endpoint_options
                 = Some (empty_object\<lparr> opt_staticUpdateInterval := Some (Scalar 30) \<rparr>)"
              "opt_otherVessels default_options = None" "opt_myVessel default_options = None"
              "opt_positionUpdateInterval default_options = None"
              "opt_staticUpdateInterval default_options = None"
    by (simp_all add: own_static_endpoint_options_def plain_endpoint_options_def default_options_def)
  note a = normalised_intervals_as_configured [OF n, where n = 10 and ns = "[]"
      and p = "Scalar 10" and s = "Scalar 5"]
  note b = normalised_intervals_as_configured [OF d, where n = 30 and ns = "[]"
      and p = "Scalar 10" and s = "Scalar 5"]
  have "positionUpdateIntervals (otherVessels fast_static_endpoint) = [10]
      \<and> staticUpdateIntervals (otherVessels fast_static_endpoint) = [5]"
    using a set by (simp add: as_array_def)
  moreover have "positionUpdateIntervals (otherVessels own_static_endpoint) = [5]
      \<and> staticUpdateIntervals (otherVessels own_static_endpoint) = [15]
      \<and> positionUpdateIntervals (myVessel own_static_endpoint) = [5]
      \<and> staticUpdateIntervals (myVessel own_static_endpoint) = [30]"
    using b unset by (simp add: as_array_def empty_object_def)
  ultimately show ?thesis
    using n d set by simp
qed

subsection \<open>The endpoint-level byte total\<close>

lemma position_step_frame:
  "endpointTotalBytesTransmitted (statistics (snd (position_step cfg enc inp hb st)))
     = endpointTotalBytesTransmitted (statistics (snd st))"
  by (simp add: position_step_def Let_def split: prod.splits)

lemma static_step_frame:
  "endpointTotalBytesTransmitted (statistics (snd (static_step cfg enc inp hb st)))
     = endpointTotalBytesTransmitted (statistics (snd st))"
  by (simp add: static_step_def Let_def split: prod.splits)

lemma endpoint_tick_frame:
  "endpointTotalBytesTransmitted (statistics (snd (endpoint_tick cfg enc inp hb st)))
     = endpointTotalBytesTransmitted (statistics (snd st))"
  by (simp add: endpoint_tick_def static_step_frame position_step_frame)

lemma tick_endpoints_untouched:
  "list_all untouched_total eps \<Longrightarrow> list_all untouched_total (snd (tick_endpoints cfg enc inp hb sock eps))"
proof (induction eps arbitrary: sock)
  case Nil
  then show ?case by simp
next
  case (Cons e eps)
  have "untouched_total (snd (endpoint_tick cfg enc inp hb (sock, e)))"
    using Cons.prems by (simp add: untouched_total_def endpoint_tick_frame)
  then show ?case unfolding tick_endpoints_Cons using Cons.prems by (simp add: Cons.IH)
qed

lemma heartbeat_untouched:
  "list_all untouched_total (endpoints (fst st)) \<Longrightarrow> list_all untouched_total (endpoints (fst (heartbeat enc st inp)))"
  by (cases st) (simp add: heartbeat_endpoints tick_endpoints_untouched)

lemma startReporting_untouched:
  assumes "makePluginConfiguration m c now options = Inr cfg"
  shows "list_all untouched_total (endpoints (fst (startReporting enc cfg inputs)))"
proof -
  have "list_all (\<lambda>ep. statistics ep = initial_statistics now) (endpoints cfg)"
    using assms by (rule makePluginConfiguration_statistics)
  then have "list_all untouched_total (endpoints cfg)"
    by (simp add: list_all_iff untouched_total_def initial_statistics_def)
  moreover have "list_all untouched_total (endpoints (fst st)) \<Longrightarrow>
      list_all untouched_total (endpoints (fst (foldl (heartbeat enc) st inputs)))" for st
    by (induction inputs arbitrary: st) (simp_all add: heartbeat_untouched)
  ultimately show ?thesis by (simp add: startReporting_def)
qed

lemma foldl_digest:
  "foldl (\<lambda>a endpoint. a(name endpoint \<mapsto> endpoint_digest endpoint)) acc eps n = Some d
   \<Longrightarrow> acc n = Some d \<or> (\<exists>e \<in> set eps. d = endpoint_digest e)"
  by (induction eps arbitrary: acc) (fastforce split: if_splits)+

lemma handleRoutes_digest:
  "handleRoutes cfg n = Some d \<Longrightarrow> \<exists>e \<in> set (endpoints cfg). d = endpoint_digest e"
  using foldl_digest [of Map.empty "endpoints cfg" n d] by (simp add: handleRoutes_def)

text \<open>
  C10. A heartbeat leaves \<open>endpointTotalBytesTransmitted\<close> of an endpoint as it was. From
  any configuration the normaliser returns and after any number of heartbeats, the field
  is 0 in every endpoint, and the status digest reports 0 for every endpoint name,
  whatever the per-report-type totals hold.
\<close>

theorem endpoint_total_bytes_stays_zero:
  assumes "makePluginConfiguration selfMMSI selfAisClass now options = Inr cfg"
    and "run = startReporting AisEncode cfg inputs"
  shows "(\<forall>endpoint \<in> set (endpoints (fst run)). endpointTotalBytesTransmitted (statistics endpoint) = 0)
       \<and> (\<forall>n d. handleRoutes (fst run) n = Some d \<longrightarrow> status_endpointTotalBytesTransmitted d = 0)
       \<and> endpointTotalBytesTransmitted (statistics (snd (endpoint_tick pluginConfiguration AisEncode input heartbeatCount (socket, e))))
           = endpointTotalBytesTransmitted (statistics e)"
proof -
  have all: "list_all untouched_total (endpoints (fst run))"
    unfolding assms(2) using assms(1) by (rule startReporting_untouched)
  then have a: "\<forall>endpoint \<in> set (endpoints (fst run)). endpointTotalBytesTransmitted (statistics endpoint) = 0"
    by (simp add: list_all_iff untouched_total_def)
  have b: "status_endpointTotalBytesTransmitted d = 0" if "handleRoutes (fst run) n = Some d" for n d
  proof -
    from handleRoutes_digest [OF that] obtain e where "e \<in> set (endpoints (fst run))" "d = endpoint_digest e"
      by blast
    with a show ?thesis by (simp add: endpoint_digest_def)
  qed
  from a b show ?thesis
    by (simp add: endpoint_tick_frame)
qed

lemmas run_defs = startReporting_def heartbeat_def endpoint_tick_def position_step_def static_step_def
  mvPUI_def mvSUI_def ovPUI_def ovSUI_def mvIDX_def ovIDX_def resolve_index_def get_interval_def
  report_due_def report_flag_def reportPosition_def reportStatic_def class_filter_def expiry_filter_def
  reportPosition_vessel_def aisClass_of_def count_report_def sendReportMsg_def no_reports_def
  updateReportStatistics_def falsy_string_def
  example_configuration_def example_endpoint_def example_vessel_config_def example_input_def
  example_selfPath_def example_encoder_def own_vessel_def other_vessel_def broken_vessel_def
  initial_statistics_def initial_report_type_statistics_def DEFAULT_MY_AIS_CLASS_def

lemma replicate_hour_day:
  "replicate 60 (0::nat) = 0 # replicate 59 0" "replicate 24 (0::nat) = 0 # replicate 23 0"
  by (simp_all add: replicate_Suc [symmetric] del: replicate_Suc)

lemma example_run_position:
  "position (statistics (hd (endpoints (fst (startReporting example_encoder example_configuration [example_input])))))
     = \<lparr> lastReportTimestamp = Some 1000000, totalBytesTransmitted = 21,
         bytesTransmittedInLastHour = 21 # replicate 59 0, bytesTransmittedInLastDay = 21 # replicate 23 0,
         totalReportsTransmitted = 3,
         reportsTransmittedInLastHour = 3 # replicate 59 0, reportsTransmittedInLastDay = 3 # replicate 23 0 \<rparr>"
  by (simp add: run_defs Let_def updateVector_def replicate_hour_day)

lemma example_run_endpoints:
  "endpoints (fst example_run) =
     [example_endpoint\<lparr> statistics := (initial_statistics 1000)\<lparr> position :=
        \<lparr> lastReportTimestamp = Some 1000000, totalBytesTransmitted = 21,
          bytesTransmittedInLastHour = 21 # replicate 59 0, bytesTransmittedInLastDay = 21 # replicate 23 0,
          totalReportsTransmitted = 3,
          reportsTransmittedInLastHour = 3 # replicate 59 0, reportsTransmittedInLastDay = 3 # replicate 23 0 \<rparr> \<rparr> \<rparr>]"
  by (simp add: example_run_def run_defs Let_def updateVector_def replicate_hour_day)

theorem endpoint_total_bytes_stays_zero_witness:
  "makePluginConfiguration (Some ''235012345'') None 1000 example_options = Inr example_configuration
   \<and> hd (endpoints (fst example_run)) \<in> set (endpoints (fst example_run))
   \<and> totalBytesTransmitted (position (statistics (hd (endpoints (fst example_run))))) = 21
   \<and> endpointTotalBytesTransmitted (statistics (hd (endpoints (fst example_run)))) = 0
   \<and> map_option status_endpointTotalBytesTransmitted (handleRoutes (fst example_run) ''192.168.1.12'') = Some 0"
proof -
  note t = endpoint_total_bytes_stays_zero [OF example_normalised example_run_def,
      of example_configuration example_input 0 "[]" example_endpoint]
  have mem: "hd (endpoints (fst example_run)) \<in> set (endpoints (fst example_run))"
    by (simp add: example_run_endpoints)
  have pos: "totalBytesTransmitted (position (statistics (hd (endpoints (fst example_run))))) = 21"
    by (simp add: example_run_endpoints)
  obtain d where d: "handleRoutes (fst example_run) ''192.168.1.12'' = Some d"
    by (simp add: handleRoutes_def example_run_endpoints example_endpoint_def)
  from t mem have "endpointTotalBytesTransmitted (statistics (hd (endpoints (fst example_run)))) = 0"
    by blast
  moreover from t d have "status_endpointTotalBytesTransmitted d = 0"
    by blast
  ultimately show ?thesis
    using example_normalised mem pos d by simp
qed

subsection \<open>The firing rule\<close>

lemma foldl_socket_grows:
  assumes "\<And>st v. \<exists>ext. fst (f st v) = fst st @ ext"
  shows "set (fst st) \<subseteq> set (fst (foldl f st vs))"
proof (induction vs arbitrary: st)
  case Nil
  then show ?case by simp
next
  case (Cons v vs)
  obtain ext where "fst (f st v) = fst st @ ext" using assms by blast
  then have "set (fst st) \<subseteq> set (fst (f st v))" by simp
  with Cons [of "f st v"] show ?case by auto
qed

lemma foldl_sends:
  assumes grow: "\<And>st v. \<exists>ext. fst (f st v) = fst st @ ext"
    and sent: "\<And>st. d \<in> set (fst (f st v))"
    and mem: "v \<in> set vs"
  shows "d \<in> set (fst (foldl f st vs))"
  using mem
proof (induction vs arbitrary: st)
  case Nil
  then show ?case by simp
next
  case (Cons x xs)
  show ?case
  proof (cases "x = v")
    case True
    have "d \<in> set (fst (f st v))" by (rule sent)
    with foldl_socket_grows [of f "f st v" xs, OF grow] True show ?thesis by auto
  next
    case False
    with Cons.prems have "v \<in> set xs" by simp
    then show ?thesis by (simp add: Cons.IH)
  qed
qed

lemma reportPosition_vessel_grows:
  "\<exists>ext. fst (reportPosition_vessel cfg enc ep rS st v) = fst st @ ext"
  by (cases st) (simp add: reportPosition_vessel_cases split: option.splits)

lemma reportStatic_vessel_grows:
  "\<exists>ext. fst (reportStatic_vessel cfg enc ep rS st v) = fst st @ ext"
  by (cases st) (simp add: reportStatic_vessel_cases split: option.splits)

lemma reportPosition_sends:
  assumes "vessel \<in> set vs" and "eligible cfg now ep rS rO vessel"
    and "enc vessel (if aisClass_of cfg vessel = ''A'' then 1 else 18) None = Some nmea"
  shows "(nmea @ [CHR 0x0A], port ep, ipAddress ep) \<in> set (fst (reportPosition cfg enc vs now sock ep rS rO))"
proof -
  have "vessel \<in> set (filter (eligible cfg now ep rS rO) vs)"
    using assms(1,2) by simp
  moreover have "(nmea @ [CHR 0x0A], port ep, ipAddress ep) \<in> set (fst (reportPosition_vessel cfg enc ep rS st vessel))" for st
    using assms(3) by (cases st) (simp add: reportPosition_vessel_cases datagrams_def)
  ultimately show ?thesis
    unfolding generators_filter_eligible
    by (intro foldl_sends reportPosition_vessel_grows)
qed

lemma reportStatic_sends_A:
  assumes "vessel \<in> set vs" and "eligible cfg now ep rS rO vessel"
    and "aisClass_of cfg vessel = ''A''" and "enc vessel 5 None = Some nmea"
  shows "(nmea @ [CHR 0x0A], port ep, ipAddress ep) \<in> set (fst (reportStatic cfg enc vs now sock ep rS rO))"
proof -
  have "vessel \<in> set (filter (eligible cfg now ep rS rO) vs)"
    using assms(1,2) by simp
  moreover have "(nmea @ [CHR 0x0A], port ep, ipAddress ep) \<in> set (fst (reportStatic_vessel cfg enc ep rS st vessel))" for st
    using assms(3,4) by (cases st) (simp add: reportStatic_vessel_cases datagrams_def)
  ultimately show ?thesis
    unfolding generators_filter_eligible
    by (intro foldl_sends reportStatic_vessel_grows)
qed

lemma self_bucket_position:
  "\<not> rS \<Longrightarrow> myVessel_count (snd (foldl (reportPosition_vessel cfg enc ep rS) st vs)) = myVessel_count (snd st)
     \<and> myVessel_bytes (snd (foldl (reportPosition_vessel cfg enc ep rS) st vs)) = myVessel_bytes (snd st)"
proof (induction vs arbitrary: st)
  case Nil
  then show ?case by simp
next
  case (Cons v vs)
  have "myVessel_count (snd (reportPosition_vessel cfg enc ep rS st v)) = myVessel_count (snd st)
      \<and> myVessel_bytes (snd (reportPosition_vessel cfg enc ep rS st v)) = myVessel_bytes (snd st)"
    using Cons.prems by (cases st) (simp add: reportPosition_vessel_cases count_report_def split: option.splits)
  with Cons.IH [OF Cons.prems, of "reportPosition_vessel cfg enc ep rS st v"] show ?case by simp
qed

lemma self_bucket_static:
  "\<not> rS \<Longrightarrow> myVessel_count (snd (foldl (reportStatic_vessel cfg enc ep rS) st vs)) = myVessel_count (snd st)
     \<and> myVessel_bytes (snd (foldl (reportStatic_vessel cfg enc ep rS) st vs)) = myVessel_bytes (snd st)"
proof (induction vs arbitrary: st)
  case Nil
  then show ?case by simp
next
  case (Cons v vs)
  have "myVessel_count (snd (reportStatic_vessel cfg enc ep rS st v)) = myVessel_count (snd st)
      \<and> myVessel_bytes (snd (reportStatic_vessel cfg enc ep rS st v)) = myVessel_bytes (snd st)"
    using Cons.prems by (cases st) (simp add: reportStatic_vessel_cases count_report_def split: option.splits)
  with Cons.IH [OF Cons.prems, of "reportStatic_vessel cfg enc ep rS st v"] show ?case by simp
qed

lemma others_bucket_position:
  "\<not> rO \<Longrightarrow> \<forall>v \<in> set vs. class_filter cfg rS rO v \<Longrightarrow>
     otherVessels_count (snd (foldl (reportPosition_vessel cfg enc ep rS) st vs)) = otherVessels_count (snd st)
     \<and> otherVessels_bytes (snd (foldl (reportPosition_vessel cfg enc ep rS) st vs)) = otherVessels_bytes (snd st)"
proof (induction vs arbitrary: st)
  case Nil
  then show ?case by simp
next
  case (Cons v vs)
  have "class_filter cfg rS rO v" using Cons.prems by simp
  then have "otherVessels_count (snd (reportPosition_vessel cfg enc ep rS st v)) = otherVessels_count (snd st)
      \<and> otherVessels_bytes (snd (reportPosition_vessel cfg enc ep rS st v)) = otherVessels_bytes (snd st)"
    using Cons.prems(1)
    by (cases st) (auto simp: reportPosition_vessel_cases count_report_def class_filter_def split: option.splits)
  with Cons.IH [of "reportPosition_vessel cfg enc ep rS st v"] Cons.prems show ?case by simp
qed

lemma others_bucket_static:
  "\<not> rO \<Longrightarrow> \<forall>v \<in> set vs. class_filter cfg rS rO v \<Longrightarrow>
     otherVessels_count (snd (foldl (reportStatic_vessel cfg enc ep rS) st vs)) = otherVessels_count (snd st)
     \<and> otherVessels_bytes (snd (foldl (reportStatic_vessel cfg enc ep rS) st vs)) = otherVessels_bytes (snd st)"
proof (induction vs arbitrary: st)
  case Nil
  then show ?case by simp
next
  case (Cons v vs)
  have "class_filter cfg rS rO v" using Cons.prems by simp
  then have "otherVessels_count (snd (reportStatic_vessel cfg enc ep rS st v)) = otherVessels_count (snd st)
      \<and> otherVessels_bytes (snd (reportStatic_vessel cfg enc ep rS st v)) = otherVessels_bytes (snd st)"
    using Cons.prems(1)
    by (cases st) (auto simp: reportStatic_vessel_cases count_report_def class_filter_def split: option.splits)
  with Cons.IH [of "reportStatic_vessel cfg enc ep rS st v"] Cons.prems show ?case by simp
qed

lemma silent_class:
  "\<not> rS \<Longrightarrow> myVessel_count (snd (reportPosition cfg enc vs now sock ep rS rO)) = 0
             \<and> myVessel_count (snd (reportStatic cfg enc vs now sock ep rS rO)) = 0"
  "\<not> rO \<Longrightarrow> otherVessels_count (snd (reportPosition cfg enc vs now sock ep rS rO)) = 0
             \<and> otherVessels_count (snd (reportStatic cfg enc vs now sock ep rS rO)) = 0"
proof -
  show "\<not> rS \<Longrightarrow> myVessel_count (snd (reportPosition cfg enc vs now sock ep rS rO)) = 0
             \<and> myVessel_count (snd (reportStatic cfg enc vs now sock ep rS rO)) = 0"
    by (simp add: reportPosition_def reportStatic_def self_bucket_position self_bucket_static no_reports_def)
  assume o: "\<not> rO"
  let ?vs = "filter (expiry_filter now ep rS rO) (filter (class_filter cfg rS rO) vs)"
  have "\<forall>v \<in> set ?vs. class_filter cfg rS rO v" by simp
  with o show "otherVessels_count (snd (reportPosition cfg enc vs now sock ep rS rO)) = 0
             \<and> otherVessels_count (snd (reportStatic cfg enc vs now sock ep rS rO)) = 0"
    unfolding reportPosition_def reportStatic_def
    using others_bucket_position [of rO ?vs cfg rS enc ep "(sock, no_reports)"]
      others_bucket_static [of rO ?vs cfg rS enc ep "(sock, no_reports)"]
    by (simp add: no_reports_def)
qed

lemma position_step_fires:
  "position_step cfg enc inp t (sock, ep) =
     (if report_flag t (mvPUI (getSelfPath inp) ep) \<or> report_flag t (ovPUI (getSelfPath inp) ep)
      then (fst (reportPosition cfg enc (vessels inp) (clock inp) sock ep
                   (report_flag t (mvPUI (getSelfPath inp) ep)) (report_flag t (ovPUI (getSelfPath inp) ep))),
            ep\<lparr> statistics := (statistics ep)\<lparr> position :=
                 updateReportStatistics (clock inp) t (position (statistics ep))
                   (snd (reportPosition cfg enc (vessels inp) (clock inp) sock ep
                     (report_flag t (mvPUI (getSelfPath inp) ep)) (report_flag t (ovPUI (getSelfPath inp) ep)))) \<rparr> \<rparr>)
      else (sock, ep))"
  by (simp add: position_step_def Let_def report_due_def report_flag_def split: prod.splits)

lemma static_step_fires:
  "static_step cfg enc inp t (sock, ep) =
     (if report_flag t (mvSUI (getSelfPath inp) ep) \<or> report_flag t (ovSUI (getSelfPath inp) ep)
      then (fst (reportStatic cfg enc (vessels inp) (clock inp) sock ep
                   (report_flag t (mvSUI (getSelfPath inp) ep)) (report_flag t (ovSUI (getSelfPath inp) ep))),
            ep\<lparr> statistics := (statistics ep)\<lparr> static :=
                 updateReportStatistics (clock inp) t (static (statistics ep))
                   (snd (reportStatic cfg enc (vessels inp) (clock inp) sock ep
                     (report_flag t (mvSUI (getSelfPath inp) ep)) (report_flag t (ovSUI (getSelfPath inp) ep)))) \<rparr> \<rparr>)
      else (sock, ep))"
  by (simp add: static_step_def Let_def report_due_def report_flag_def split: prod.splits)

text \<open>
  C1. With a resolved interval \<open>i > 0\<close> the report type fires on heartbeat \<open>t\<close> exactly when
  \<open>t mod i = 0\<close>, both in the scheduler's condition and in the flag it hands to the
  generator; with interval 0 it never fires. On a heartbeat where a class fires, the
  scheduler calls the generator of the report type once, with the flag of each class set
  exactly when that class fires, and folds the result into the statistics of the report
  type; where no class fires it leaves socket and endpoint alone. In that call a class
  that does not fire gets no report, and every eligible vessel of a class that fires
  whose position report (or class A static report) encodes has its sentence sent.
\<close>

theorem report_fires_iff_modulo:
  assumes "mvP = mvPUI (getSelfPath input) endpoint" and "ovP = ovPUI (getSelfPath input) endpoint"
    and "mvS = mvSUI (getSelfPath input) endpoint" and "ovS = ovSUI (getSelfPath input) endpoint"
    and "selfP = (0 < mvP \<and> t mod mvP = 0)" and "othersP = (0 < ovP \<and> t mod ovP = 0)"
    and "selfS = (0 < mvS \<and> t mod mvS = 0)" and "othersS = (0 < ovS \<and> t mod ovS = 0)"
    and "positionCall = reportPosition pluginConfiguration AisEncode (vessels input) (clock input)
                          socket endpoint selfP othersP"
    and "staticCall = reportStatic pluginConfiguration AisEncode (vessels input) (clock input)
                        socket endpoint selfS othersS"
  shows "(0 < i \<longrightarrow> (report_due t i \<longleftrightarrow> t mod i = 0) \<and> (report_flag t i \<longleftrightarrow> t mod i = 0))
       \<and> \<not> report_due t 0 \<and> \<not> report_flag t 0
       \<and> position_step pluginConfiguration AisEncode input t (socket, endpoint) =
           (if selfP \<or> othersP
            then (fst positionCall,
                  endpoint\<lparr> statistics := (statistics endpoint)\<lparr> position :=
                    updateReportStatistics (clock input) t (position (statistics endpoint)) (snd positionCall) \<rparr> \<rparr>)
            else (socket, endpoint))
       \<and> static_step pluginConfiguration AisEncode input t (socket, endpoint) =
           (if selfS \<or> othersS
            then (fst staticCall,
                  endpoint\<lparr> statistics := (statistics endpoint)\<lparr> static :=
                    updateReportStatistics (clock input) t (static (statistics endpoint)) (snd staticCall) \<rparr> \<rparr>)
            else (socket, endpoint))
       \<and> (\<not> selfP \<longrightarrow> myVessel_count (snd positionCall) = 0)
       \<and> (\<not> othersP \<longrightarrow> otherVessels_count (snd positionCall) = 0)
       \<and> (\<not> selfS \<longrightarrow> myVessel_count (snd staticCall) = 0)
       \<and> (\<not> othersS \<longrightarrow> otherVessels_count (snd staticCall) = 0)
       \<and> (\<forall>vessel nmea. vessel \<in> set (vessels input)
             \<and> eligible pluginConfiguration (clock input) endpoint selfP othersP vessel
             \<and> AisEncode vessel (if aisClass_of pluginConfiguration vessel = ''A'' then 1 else 18) None = Some nmea
           \<longrightarrow> (nmea @ [CHR 0x0A], port endpoint, ipAddress endpoint) \<in> set (fst positionCall))
       \<and> (\<forall>vessel nmea. vessel \<in> set (vessels input)
             \<and> eligible pluginConfiguration (clock input) endpoint selfS othersS vessel
             \<and> aisClass_of pluginConfiguration vessel = ''A''
             \<and> AisEncode vessel 5 None = Some nmea
           \<longrightarrow> (nmea @ [CHR 0x0A], port endpoint, ipAddress endpoint) \<in> set (fst staticCall))"
proof -
  have rule: "(0 < i \<longrightarrow> (report_due t i \<longleftrightarrow> t mod i = 0) \<and> (report_flag t i \<longleftrightarrow> t mod i = 0))
        \<and> \<not> report_due t 0 \<and> \<not> report_flag t 0"
    by (simp add: report_due_def report_flag_def)
  have flags: "report_flag t mvP = selfP" "report_flag t ovP = othersP"
              "report_flag t mvS = selfS" "report_flag t ovS = othersS"
    using assms(5-8) by (auto simp: report_flag_def)
  have pos: "position_step pluginConfiguration AisEncode input t (socket, endpoint) =
           (if selfP \<or> othersP
            then (fst positionCall,
                  endpoint\<lparr> statistics := (statistics endpoint)\<lparr> position :=
                    updateReportStatistics (clock input) t (position (statistics endpoint)) (snd positionCall) \<rparr> \<rparr>)
            else (socket, endpoint))"
    unfolding position_step_fires assms(9) flags [unfolded assms(1,2), symmetric] assms(1,2) by simp
  have stat: "static_step pluginConfiguration AisEncode input t (socket, endpoint) =
           (if selfS \<or> othersS
            then (fst staticCall,
                  endpoint\<lparr> statistics := (statistics endpoint)\<lparr> static :=
                    updateReportStatistics (clock input) t (static (statistics endpoint)) (snd staticCall) \<rparr> \<rparr>)
            else (socket, endpoint))"
    unfolding static_step_fires assms(10) flags [unfolded assms(3,4), symmetric] assms(3,4) by simp
  have silent: "\<not> selfP \<longrightarrow> myVessel_count (snd positionCall) = 0"
               "\<not> othersP \<longrightarrow> otherVessels_count (snd positionCall) = 0"
               "\<not> selfS \<longrightarrow> myVessel_count (snd staticCall) = 0"
               "\<not> othersS \<longrightarrow> otherVessels_count (snd staticCall) = 0"
    unfolding assms(9,10) by (simp_all add: silent_class)
  have sendP: "\<forall>vessel nmea. vessel \<in> set (vessels input)
             \<and> eligible pluginConfiguration (clock input) endpoint selfP othersP vessel
             \<and> AisEncode vessel (if aisClass_of pluginConfiguration vessel = ''A'' then 1 else 18) None = Some nmea
           \<longrightarrow> (nmea @ [CHR 0x0A], port endpoint, ipAddress endpoint) \<in> set (fst positionCall)"
    unfolding assms(9) by (blast intro: reportPosition_sends)
  have sendS: "\<forall>vessel nmea. vessel \<in> set (vessels input)
             \<and> eligible pluginConfiguration (clock input) endpoint selfS othersS vessel
             \<and> aisClass_of pluginConfiguration vessel = ''A''
             \<and> AisEncode vessel 5 None = Some nmea
           \<longrightarrow> (nmea @ [CHR 0x0A], port endpoint, ipAddress endpoint) \<in> set (fst staticCall)"
    unfolding assms(10) by (blast intro: reportStatic_sends_A)
  show ?thesis
    using rule pos stat silent sendP sendS by (intro conjI) (fast+)
qed

theorem report_fires_iff_modulo_witness:
  "(0::nat) < 5 \<and> report_due 10 5 \<and> report_flag 10 5 \<and> \<not> report_due 11 5 \<and> \<not> report_flag 11 5
   \<and> mvPUI (getSelfPath example_input) example_endpoint = 1
   \<and> own_vessel \<in> set (vessels example_input)
   \<and> eligible example_configuration (clock example_input) example_endpoint True True own_vessel
   \<and> example_encoder own_vessel 18 None = Some ''!AIVDM''
   \<and> (''!AIVDM'' @ [CHR 0x0A], 12345, ''192.168.1.12'')
        \<in> set (fst (position_step example_configuration example_encoder example_input 11 ([], example_endpoint)))
   \<and> mvSUI (getSelfPath example_input) example_endpoint = 0
   \<and> ovSUI (getSelfPath example_input) example_endpoint = 0
   \<and> static_step example_configuration example_encoder example_input 11 ([], example_endpoint)
       = ([], example_endpoint)"
proof -
  have idx: "mvPUI (getSelfPath example_input) example_endpoint = 1"
            "ovPUI (getSelfPath example_input) example_endpoint = 1"
            "mvSUI (getSelfPath example_input) example_endpoint = 0"
            "ovSUI (getSelfPath example_input) example_endpoint = 0"
    by (simp_all add: mvPUI_def ovPUI_def mvSUI_def ovSUI_def mvIDX_def ovIDX_def resolve_index_def
        get_interval_def example_input_def example_endpoint_def example_vessel_config_def
        example_selfPath_def falsy_string_def)
  have mem: "own_vessel \<in> set (vessels example_input)"
    by (simp add: example_input_def)
  have el: "eligible example_configuration (clock example_input) example_endpoint True True own_vessel"
    by (simp add: eligible_def class_filter_def expiry_filter_def own_vessel_def example_input_def
        example_configuration_def example_endpoint_def example_vessel_config_def)
  have cls: "aisClass_of example_configuration own_vessel = ''B''"
    by (simp add: aisClass_of_def example_configuration_def own_vessel_def)
  have en: "example_encoder own_vessel 18 None = Some ''!AIVDM''"
    by (simp add: example_encoder_def own_vessel_def)
  have ep: "port example_endpoint = 12345" "ipAddress example_endpoint = ''192.168.1.12''"
    by (simp_all add: example_endpoint_def)
  note t = report_fires_iff_modulo [OF refl refl refl refl refl refl refl refl refl refl,
      where i = 5 and t = 11 and input = example_input and endpoint = example_endpoint
        and pluginConfiguration = example_configuration and AisEncode = example_encoder
        and socket = "[]"]
  note u = report_fires_iff_modulo [OF refl refl refl refl refl refl refl refl refl refl,
      where i = 5 and t = 10 and input = example_input and endpoint = example_endpoint
        and pluginConfiguration = example_configuration and AisEncode = example_encoder
        and socket = "[]"]
  have rule: "report_due 10 5 \<and> report_flag 10 5 \<and> \<not> report_due 11 5 \<and> \<not> report_flag 11 5"
    using t u by simp
  have step: "position_step example_configuration example_encoder example_input 11 ([], example_endpoint) =
      (fst (reportPosition example_configuration example_encoder (vessels example_input)
              (clock example_input) [] example_endpoint True True),
       example_endpoint\<lparr> statistics := (statistics example_endpoint)\<lparr> position :=
          updateReportStatistics (clock example_input) 11 (position (statistics example_endpoint))
            (snd (reportPosition example_configuration example_encoder (vessels example_input)
              (clock example_input) [] example_endpoint True True)) \<rparr> \<rparr>)"
    using t by (simp add: idx)
  have sent: "(''!AIVDM'' @ [CHR 0x0A], port example_endpoint, ipAddress example_endpoint)
      \<in> set (fst (reportPosition example_configuration example_encoder (vessels example_input)
              (clock example_input) [] example_endpoint True True))"
  proof -
    have "\<forall>vessel nmea. vessel \<in> set (vessels example_input)
             \<and> eligible example_configuration (clock example_input) example_endpoint True True vessel
             \<and> example_encoder vessel (if aisClass_of example_configuration vessel = ''A'' then 1 else 18) None = Some nmea
           \<longrightarrow> (nmea @ [CHR 0x0A], port example_endpoint, ipAddress example_endpoint)
                 \<in> set (fst (reportPosition example_configuration example_encoder (vessels example_input)
                          (clock example_input) [] example_endpoint True True))"
      using t by (simp add: idx)
    moreover have "example_encoder own_vessel (if aisClass_of example_configuration own_vessel = ''A'' then 1 else 18) None
        = Some ''!AIVDM''"
      using en cls by simp
    ultimately show ?thesis
      using mem el by blast
  qed
  have idle: "static_step example_configuration example_encoder example_input 11 ([], example_endpoint)
       = ([], example_endpoint)"
    using t by (simp add: idx)
  from rule idx mem el en step sent idle ep show ?thesis
    by simp
qed

end
